theory Spec2Isabelle
  imports Complex_Main "HOL-Library.Char_ord" "HOL-Library.Multiset" "HOL-Library.Sublist"
begin

section \<open>Strings\<close>

text \<open>
  Python \<^verbatim>\<open>str\<close> values are modelled as \<^typ>\<open>string\<close>. The texts handled here
  (resumes, job postings, role names) are taken to be ASCII; the only character beyond
  ASCII that the source names, the en dash of the date pattern, appears as its UTF-8
  bytes. Python floats are modelled as exact reals, Python ints as \<^typ>\<open>int\<close>
  or \<^typ>\<open>nat\<close>.
\<close>

definition is_digit :: "char \<Rightarrow> bool" where
  "is_digit c = (CHR ''0'' \<le> c \<and> c \<le> CHR ''9'')"

text \<open>\<^verbatim>\<open>str.lower()\<close> on one character: the 26 capital letters map to their small forms.\<close>

definition lower_char :: "char \<Rightarrow> char" where
  "lower_char c =
     (case map_of (zip ''ABCDEFGHIJKLMNOPQRSTUVWXYZ'' ''abcdefghijklmnopqrstuvwxyz'') c of
        Some l \<Rightarrow> l
      | None \<Rightarrow> c)"

definition lower :: "string \<Rightarrow> string" where
  "lower s = map lower_char s"

text \<open>\<^verbatim>\<open>s.startswith(p)\<close>, and the substring test \<^verbatim>\<open>needle in haystack\<close>.\<close>

fun starts_with :: "string \<Rightarrow> string \<Rightarrow> bool" where
  "starts_with s [] = True"
| "starts_with [] (p # ps) = False"
| "starts_with (c # cs) (p # ps) = (c = p \<and> starts_with cs ps)"

fun py_in :: "string \<Rightarrow> string \<Rightarrow> bool" where
  "py_in needle [] = (needle = [])"
| "py_in needle (c # cs) = (starts_with (c # cs) needle \<or> py_in needle cs)"

section \<open>The regular expressions of Python's \<^verbatim>\<open>re\<close> that the source uses\<close>

text \<open>
  The character classes \<^verbatim>\<open>\s\<close> and \<^verbatim>\<open>\w\<close> on ASCII text (\<^verbatim>\<open>\d\<close> is
  \<^const>\<open>is_digit\<close>).
\<close>

definition is_space :: "char \<Rightarrow> bool" where
  "is_space c = (c = CHR '' '' \<or> (CHR 0x09 \<le> c \<and> c \<le> CHR 0x0D) \<or> (CHR 0x1C \<le> c \<and> c \<le> CHR 0x1F))"

definition is_word :: "char \<Rightarrow> bool" where
  "is_word c = ((CHR ''a'' \<le> c \<and> c \<le> CHR ''z'') \<or> (CHR ''A'' \<le> c \<and> c \<le> CHR ''Z'')
     \<or> is_digit c \<or> c = CHR ''_'')"

text \<open>
  The pattern syntax that occurs in the source: a literal character, a character class,
  concatenation, alternation \<^verbatim>\<open>|\<close>, the greedy \<^verbatim>\<open>?\<close>, a greedy repetition of a
  character class at least \<open>n\<close> times (\<^verbatim>\<open>*\<close> is \<open>n = 0\<close>, \<^verbatim>\<open>+\<close> is \<open>n = 1\<close>),
  a capturing group and the word boundary \<^verbatim>\<open>\b\<close>. A non-capturing group \<^verbatim>\<open>(?:...)\<close>
  is the pattern inside it.
\<close>

datatype rx =
    Lit char
  | Cls "char \<Rightarrow> bool"
  | Cat rx rx
  | Alt rx rx
  | Opt rx
  | Many "char \<Rightarrow> bool" nat
  | Grp rx
  | WordB

text \<open>
  A matcher state holds the text before the current position (reversed), the text after
  it, and the groups captured so far. \<open>rmatch\<close> lists the states in which a pattern can
  end when started in a state, in the order in which the backtracking matcher of
  \<^verbatim>\<open>re\<close> tries them: the first alternative before the second, one occurrence of an
  optional part before none, the longest repetition first. The flag is
  \<^verbatim>\<open>re.IGNORECASE\<close>.
\<close>

type_synonym mstate = "string \<times> string \<times> string list"

definition at_boundary :: "string \<Rightarrow> string \<Rightarrow> bool" where
  "at_boundary b a =
     ((case b of [] \<Rightarrow> False | x # _ \<Rightarrow> is_word x) \<noteq> (case a of [] \<Rightarrow> False | y # _ \<Rightarrow> is_word y))"

fun rmatch :: "bool \<Rightarrow> rx \<Rightarrow> mstate \<Rightarrow> mstate list" where
  "rmatch ic (Lit c) (b, a, g) =
     (case a of
        [] \<Rightarrow> []
      | x # xs \<Rightarrow> if (if ic then lower_char x = lower_char c else x = c) then [(x # b, xs, g)] else [])"
| "rmatch ic (Cls P) (b, a, g) =
     (case a of [] \<Rightarrow> [] | x # xs \<Rightarrow> if P x then [(x # b, xs, g)] else [])"
| "rmatch ic (Cat r1 r2) st = concat (map (rmatch ic r2) (rmatch ic r1 st))"
| "rmatch ic (Alt r1 r2) st = rmatch ic r1 st @ rmatch ic r2 st"
| "rmatch ic (Opt r) st = rmatch ic r st @ [st]"
| "rmatch ic (Many P n) (b, a, g) =
     map (\<lambda>k. (rev (take k a) @ b, drop k a, g)) (rev [n ..< Suc (length (takeWhile P a))])"
| "rmatch ic (Grp r) (b, a, g) =
     map (\<lambda>(b', a', g'). (b', a', g' @ [take (length a - length a') a])) (rmatch ic r (b, a, g))"
| "rmatch ic WordB (b, a, g) = (if at_boundary b a then [(b, a, g)] else [])"

text \<open>
  A sequence of patterns, and the pattern of a literal string, as \<^verbatim>\<open>re.escape\<close>
  makes it. The empty sequence matches the empty string, once.
\<close>

fun seq :: "rx list \<Rightarrow> rx" where
  "seq [] = Many (\<lambda>c. False) 0"
| "seq [r] = r"
| "seq (r # rs) = Cat r (seq rs)"

definition literal :: "string \<Rightarrow> rx" where
  "literal s = seq (map Lit s)"

text \<open>
  One attempt at a position: the first way the pattern matches there, as the number of
  characters it takes and the result \<^verbatim>\<open>findall\<close> reports for it (the groups, or the
  whole match when the pattern has no group).
\<close>

definition match_here :: "bool \<Rightarrow> rx \<Rightarrow> string \<Rightarrow> string \<Rightarrow> (nat \<times> string list) option" where
  "match_here ic r b a =
     (case rmatch ic r (b, a, []) of
        [] \<Rightarrow> None
      | (b', a', g) # _ \<Rightarrow>
          let n = length a - length a' in Some (n, if g = [] then [take n a] else g))"

text \<open>
  \<^verbatim>\<open>re.findall\<close>: scan from left to right, each match starting where the one before
  ended. None of the source's patterns matches the empty string; an empty match moves
  one character on.
\<close>

function scan :: "bool \<Rightarrow> rx \<Rightarrow> string \<Rightarrow> string \<Rightarrow> string list list" where
  "scan ic r b [] = (case match_here ic r b [] of None \<Rightarrow> [] | Some (n, res) \<Rightarrow> [res])"
| "scan ic r b (c # cs) =
     (case match_here ic r b (c # cs) of
        None \<Rightarrow> scan ic r (c # b) cs
      | Some (n, res) \<Rightarrow>
          res # scan ic r (rev (take (max n 1) (c # cs)) @ b) (drop (max n 1) (c # cs)))"
  by pat_completeness auto
termination
  by (relation "measure (\<lambda>(ic, r, b, a). length a)") auto

definition findall :: "bool \<Rightarrow> rx \<Rightarrow> string \<Rightarrow> string list list" where
  "findall ic r s = scan ic r [] s"

text \<open>\<^verbatim>\<open>re.search(...)\<close> as a truth value: the pattern matches at some position.\<close>

fun search_from :: "bool \<Rightarrow> rx \<Rightarrow> string \<Rightarrow> string \<Rightarrow> bool" where
  "search_from ic r b [] = (rmatch ic r (b, [], []) \<noteq> [])"
| "search_from ic r b (c # cs) = (rmatch ic r (b, c # cs, []) \<noteq> [] \<or> search_from ic r (c # b) cs)"

definition search :: "bool \<Rightarrow> rx \<Rightarrow> string \<Rightarrow> bool" where
  "search ic r s = search_from ic r [] s"

section \<open>Data: the dictionaries of the source\<close>

text \<open>
  A key that the source reads with \<^verbatim>\<open>d.get(key, default)\<close> is an optional field;
  a key read with \<^verbatim>\<open>d[key]\<close> is a field that is there.
\<close>

record education_info =
  level :: "string option"
  summary :: "string option"

record project =
  title :: string
  description :: string

record resume_data =
  skills :: "string list option"
  education :: "education_info option"
  years_of_experience :: "real option"
  projects :: "project list option"
  full_text :: "string option"

record job =
  job_id :: int
  title :: string
  company :: string
  description :: string
  requirements :: string
  experience :: "string option"
  education_required :: "string option"
  projects_required :: "string option"

text \<open>\<^verbatim>\<open>d.get(key, default)\<close>.\<close>

definition get_or :: "'a option \<Rightarrow> 'a \<Rightarrow> 'a" where
  "get_or v d = (case v of None \<Rightarrow> d | Some x \<Rightarrow> x)"

text \<open>The result of \<^verbatim>\<open>calculate_smart_score\<close>.\<close>

record breakdown =
  exact_skills :: real
  related_skills :: real
  experience :: real
  education :: real
  projects :: real
  semantic :: real

record weights =
  skills_total :: real
  experience :: real
  semantic :: real
  education :: real
  projects :: real

record smart_score =
  final_score :: real
  breakdown :: breakdown
  weights :: weights
  experience_gap :: real
  education_sufficient :: bool
  exact_matches :: nat
  related_matches :: nat

text \<open>The result of \<^verbatim>\<open>calculate_detailed_breakdown\<close>.\<close>

record skills_detail =
  score :: real
  matched :: nat
  total :: nat
  missing :: "string list"

record education_detail =
  score :: real
  candidate :: string
  required :: string
  candidate_level :: int
  required_level :: int

record experience_detail =
  score :: real
  candidate_years :: real
  required_years :: real
  gap :: real

record projects_detail =
  score :: real
  count :: nat
  required :: string

record detailed_breakdown =
  overall :: real
  skills :: skills_detail
  education :: education_detail
  experience :: experience_detail
  projects :: projects_detail

section \<open>\<^verbatim>\<open>ResumeAnalyzer\<close>: extraction\<close>

definition skill_keywords :: "string list" where
  "skill_keywords = [
    ''Python'', ''Java'', ''JavaScript'', ''TypeScript'', ''C++'', ''C#'', ''Ruby'',
    ''Go'', ''Rust'', ''PHP'', ''Swift'', ''Kotlin'', ''R'', ''Scala'', ''Perl'',
    ''MATLAB'', ''C'', ''Objective-C'', ''React'', ''Angular'', ''Vue'', ''Vue.js'',
    ''Node.js'', ''Django'', ''Flask'', ''Spring'', ''Express'', ''HTML'', ''CSS'',
    ''SASS'', ''LESS'', ''Bootstrap'', ''Tailwind'', ''REST'', ''GraphQL'', ''WebSocket'',
    ''Next.js'', ''Nuxt.js'', ''jQuery'', ''Redux'', ''MobX'', ''SQL'', ''MySQL'',
    ''PostgreSQL'', ''MongoDB'', ''Redis'', ''Cassandra'', ''DynamoDB'', ''Oracle'',
    ''SQLite'', ''ElasticSearch'', ''Neo4j'', ''CouchDB'', ''MariaDB'', ''AWS'', ''Azure'',
    ''GCP'', ''Google Cloud'', ''Docker'', ''Kubernetes'', ''K8s'', ''Jenkins'',
    ''GitLab'', ''CI/CD'', ''Terraform'', ''Ansible'', ''Chef'', ''Puppet'', ''Linux'',
    ''Git'', ''GitHub'', ''Bitbucket'', ''CircleCI'', ''Travis CI'', ''Machine Learning'',
    ''Deep Learning'', ''TensorFlow'', ''PyTorch'', ''Keras'', ''scikit-learn'', ''NLP'',
    ''Natural Language Processing'', ''Computer Vision'', ''Neural Networks'',
    ''Data Science'', ''Pandas'', ''NumPy'', ''Spark'', ''Hadoop'', ''Tableau'',
    ''Power BI'', ''MLOps'', ''AI'', ''Artificial Intelligence'', ''Data Mining'',
    ''Statistical Analysis'', ''iOS'', ''Android'', ''React Native'', ''Flutter'',
    ''SwiftUI'', ''UIKit'', ''Testing'', ''Unit Testing'', ''Integration Testing'',
    ''Jest'', ''Mocha'', ''Pytest'', ''Selenium'', ''Cypress'', ''JUnit'', ''TestNG'',
    ''Agile'', ''Scrum'', ''Microservices'', ''API'', ''RESTful API'', ''Serverless'',
    ''Blockchain'', ''Solidity'', ''Web3'']"

text \<open>
  The four patterns of \<^verbatim>\<open>experience_patterns\<close>:
  \<^verbatim>\<open>(\d+)\+?\s*years?(?:\s+of)?\s+(?:experience|exp)\<close>,
  \<^verbatim>\<open>(\d+)\+?\s*yrs?(?:\s+of)?\s+(?:experience|exp)\<close>,
  \<^verbatim>\<open>experience[:\s]+(\d+)\+?\s*years?\<close> and
  \<^verbatim>\<open>(\d+)\+?\s*years?\s+in\<close>.
\<close>

definition experience_patterns :: "rx list" where
  "experience_patterns = [
     seq [Grp (Many is_digit 1), Opt (Lit CHR ''+''), Many is_space 0, literal ''year'',
          Opt (Lit CHR ''s''), Opt (seq [Many is_space 1, literal ''of'']), Many is_space 1,
          Alt (literal ''experience'') (literal ''exp'')],
     seq [Grp (Many is_digit 1), Opt (Lit CHR ''+''), Many is_space 0, literal ''yr'',
          Opt (Lit CHR ''s''), Opt (seq [Many is_space 1, literal ''of'']), Many is_space 1,
          Alt (literal ''experience'') (literal ''exp'')],
     seq [literal ''experience'', Many (\<lambda>c. c = CHR '':'' \<or> is_space c) 1,
          Grp (Many is_digit 1), Opt (Lit CHR ''+''), Many is_space 0, literal ''year'',
          Opt (Lit CHR ''s'')],
     seq [Grp (Many is_digit 1), Opt (Lit CHR ''+''), Many is_space 0, literal ''year'',
          Opt (Lit CHR ''s''), Many is_space 1, literal ''in'']]"

text \<open>
  \<^verbatim>\<open>(20\d{2})\s*[-\u2013]\s*(20\d{2}|present|current)\<close>, where
  \<^verbatim>\<open>\u2013\<close> stands for the en dash that the source writes as the second character
  of the class; in UTF-8 it is the bytes E2 80 93.
\<close>

definition date_pattern :: rx where
  "date_pattern =
     seq [Grp (seq [Lit CHR ''2'', Lit CHR ''0'', Cls is_digit, Cls is_digit]),
          Many is_space 0,
          Alt (Lit CHR ''-'') (literal [CHR 0xE2, CHR 0x80, CHR 0x93]),
          Many is_space 0,
          Grp (Alt (seq [Lit CHR ''2'', Lit CHR ''0'', Cls is_digit, Cls is_digit])
                 (Alt (literal ''present'') (literal ''current'')))]"

text \<open>
  \<^verbatim>\<open>findall\<close> for a pattern with at most one group gives strings, for a pattern with
  two groups pairs of strings.
\<close>

definition findall_strings :: "bool \<Rightarrow> rx \<Rightarrow> string \<Rightarrow> string list" where
  "findall_strings ic r s = map (\<lambda>g. case g of [] \<Rightarrow> [] | x # _ \<Rightarrow> x) (findall ic r s)"

definition findall_pairs :: "bool \<Rightarrow> rx \<Rightarrow> string \<Rightarrow> (string \<times> string) list" where
  "findall_pairs ic r s = map (\<lambda>g. case g of x # y # _ \<Rightarrow> (x, y) | _ \<Rightarrow> ([], [])) (findall ic r s)"

text \<open>\<^verbatim>\<open>int(s)\<close> and \<^verbatim>\<open>float(s)\<close> for a string of decimal digits.\<close>

definition digit_val :: "char \<Rightarrow> nat" where
  "digit_val c =
     (case map_of (zip ''0123456789'' [0, 1, 2, 3, 4, 5, 6, 7, 8, 9]) c of
        Some d \<Rightarrow> d
      | None \<Rightarrow> 0)"

definition int_of_digits :: "string \<Rightarrow> nat" where
  "int_of_digits s = foldl (\<lambda>n c. 10 * n + digit_val c) 0 s"

text \<open>\<^verbatim>\<open>max(xs)\<close> of a list that is not empty.\<close>

fun py_max :: "real list \<Rightarrow> real" where
  "py_max [] = 0"
| "py_max (x # xs) = fold max xs x"

text \<open>The pattern that \<^verbatim>\<open>extract_skills\<close> builds for one skill.\<close>

definition skill_pattern :: "string \<Rightarrow> rx" where
  "skill_pattern skill = seq [WordB, literal (lower skill), WordB]"

text \<open>The second loop of \<^verbatim>\<open>extract_skills\<close>, which drops duplicates.\<close>

fun unique_skills :: "string set \<Rightarrow> string list \<Rightarrow> string list" where
  "unique_skills seen [] = []"
| "unique_skills seen (skill # found) =
     (if lower skill \<in> seen then unique_skills seen found
      else skill # unique_skills (insert (lower skill) seen) found)"

definition extract_skills :: "string \<Rightarrow> string list" where
  "extract_skills resume_text =
     (let text_lower = lower resume_text;
          found_skills = filter (\<lambda>skill. search False (skill_pattern skill) text_lower) skill_keywords
      in unique_skills {} found_skills)"

text \<open>
  \<^verbatim>\<open>extract_years_of_experience\<close>. Every match of the first group is a string of
  digits, so \<^verbatim>\<open>float(match)\<close> does not raise and the \<^verbatim>\<open>except\<close> branch is never
  taken.
\<close>

definition extract_years_of_experience :: "string \<Rightarrow> real" where
  "extract_years_of_experience resume_text =
     (let years = concat (map (\<lambda>pattern. map (\<lambda>m. real (int_of_digits m))
                                   (findall_strings True pattern resume_text)) experience_patterns);
          date_matches = findall_pairs True date_pattern resume_text;
          years = years @ map (\<lambda>(start, end).
                    let start_year = int (int_of_digits start);
                        end_year = (if lower end \<in> {''present'', ''current''} then 2024
                                    else int (int_of_digits end))
                    in real_of_int (end_year - start_year)) date_matches
      in if years \<noteq> [] then py_max years else 2.0)"

section \<open>\<^verbatim>\<open>ResumeAnalyzer\<close>: scoring\<close>

text \<open>\<^verbatim>\<open>sep.join(xs)\<close>.\<close>

fun join :: "string \<Rightarrow> string list \<Rightarrow> string" where
  "join sep [] = []"
| "join sep [x] = x"
| "join sep (x # xs) = x @ sep @ join sep xs"

definition identify_missing_skills :: "resume_data \<Rightarrow> job \<Rightarrow> string list" where
  "identify_missing_skills rd jb =
     (let job_requirements = lower (requirements jb);
          resume_skills_lower = map lower (get_or (resume_data.skills rd) []);
          missing = filter (\<lambda>skill. py_in (lower skill) job_requirements
                               \<and> \<not> py_in (lower skill) (join '' '' resume_skills_lower))
                      skill_keywords
      in take 5 missing)"

definition skill_synonyms :: "(string \<times> string list) list" where
  "skill_synonyms = [
     (''python'', [''py'', ''python3'']),
     (''javascript'', [''js'', ''typescript'', ''ts'']),
     (''machine learning'', [''ml'', ''deep learning'', ''dl'', ''ai'']),
     (''react'', [''reactjs'', ''react.js'']),
     (''node'', [''nodejs'', ''node.js'']),
     (''tensorflow'', [''tf'']),
     (''pytorch'', [''torch'']),
     (''kubernetes'', [''k8s''])]"

text \<open>
  The inner loop over \<^verbatim>\<open>skill_synonyms.items()\<close> for one skill: whether it reaches
  \<^verbatim>\<open>related_matches += 1\<close> (and the \<^verbatim>\<open>break\<close>).
\<close>

fun related_hit :: "(string \<times> string list) list \<Rightarrow> string \<Rightarrow> string \<Rightarrow> bool" where
  "related_hit [] skill job_requirements_lower = False"
| "related_hit ((key, synonyms) # rest) skill job_requirements_lower =
     (if (skill = key \<or> skill \<in> set synonyms) \<and> py_in key job_requirements_lower then True
      else related_hit rest skill job_requirements_lower)"

text \<open>
  \<^verbatim>\<open>float(re.findall(r'\d+', s)[0]) if re.findall(r'\d+', s) else 0\<close> on
  \<^verbatim>\<open>job.get('experience', '0+')\<close>.
\<close>

definition parse_required_years :: "job \<Rightarrow> real" where
  "parse_required_years jb =
     (let required_exp_str = get_or (job.experience jb) ''0+''
      in case findall_strings False (Many is_digit 1) required_exp_str of
           [] \<Rightarrow> 0
         | m # _ \<Rightarrow> real (int_of_digits m))"

definition edu_hierarchy :: "(string \<times> int) list" where
  "edu_hierarchy = [
     (''phd'', 5), (''ph.d'', 5), (''doctorate'', 5),
     (''masters'', 4), (''master's'', 4), (''ms'', 4), (''m.s'', 4), (''mba'', 4),
     (''bachelor'', 3), (''bachelor's'', 3), (''bs'', 3), (''b.s'', 3), (''ba'', 3),
     (''associate'', 2),
     (''diploma'', 1)]"

text \<open>
  The loop over \<^verbatim>\<open>edu_hierarchy.items()\<close>, on the pair
  \<^verbatim>\<open>(candidate_level, required_level)\<close>.
\<close>

fun edu_levels :: "(string \<times> int) list \<Rightarrow> string \<Rightarrow> string \<Rightarrow> int \<times> int \<Rightarrow> int \<times> int" where
  "edu_levels [] candidate_edu required_edu (cl, rl) = (cl, rl)"
| "edu_levels ((key, value) # rest) candidate_edu required_edu (cl, rl) =
     edu_levels rest candidate_edu required_edu
       (if py_in key candidate_edu then max cl value else cl,
        if py_in key required_edu then max rl value else rl)"

text \<open>
  \<^verbatim>\<open>calculate_smart_score\<close>, with the local variables of the source in their order.
  The set \<^verbatim>\<open>job_requirements_words\<close>, which the source computes and never reads, is
  left out. The two counting loops are the lengths of the filtered lists.
\<close>

definition calculate_smart_score :: "resume_data \<Rightarrow> job \<Rightarrow> real \<Rightarrow> smart_score" where
  "calculate_smart_score rd jb ml_semantic_score =
     (let job_requirements_lower = lower (requirements jb);
          resume_skills_lower = map lower (get_or (resume_data.skills rd) []);
          exact_matches = length (filter (\<lambda>skill. py_in skill job_requirements_lower) resume_skills_lower);
          total_resume_skills = (if resume_skills_lower \<noteq> [] then length resume_skills_lower else 1);
          exact_skills_score = min (real exact_matches / max (real total_resume_skills * 0.5) 1) 1.0;
          related_matches = length (filter (\<lambda>skill. related_hit skill_synonyms skill job_requirements_lower)
                                      resume_skills_lower);
          related_skills_score = min (real related_matches / max (real total_resume_skills * 0.3) 1) 1.0;
          required_years = parse_required_years jb;
          candidate_years = get_or (years_of_experience rd) 0;
          experience_score =
            (if required_years = 0 then 0.8
             else if candidate_years \<ge> required_years then 1.0
             else if candidate_years \<ge> required_years * 0.7 then 0.85
             else if candidate_years \<ge> required_years * 0.5 then 0.65
             else candidate_years / max required_years 1);
          experience_score = min experience_score 1.0;
          edu_data = get_or (resume_data.education rd) \<lparr>level = None, summary = None\<rparr>;
          candidate_edu = lower (get_or (level edu_data) []);
          required_edu = lower (get_or (education_required jb) []);
          (candidate_level, required_level) = edu_levels edu_hierarchy candidate_edu required_edu (0, 0);
          education_score =
            (if required_level = 0 then 0.8
             else if candidate_level \<ge> required_level then 1.0
             else if candidate_level = required_level - 1 then 0.85
             else 0.6);
          projects = get_or (resume_data.projects rd) [];
          projects_required = lower (get_or (job.projects_required jb) []);
          projects_score =
            (if py_in ''portfolio'' projects_required \<or> py_in ''projects'' projects_required
             then (if projects \<noteq> [] then min (real (length projects) / 2.0) 1.0 else 0.4)
             else 0.7);
          semantic_score = ml_semantic_score;
          base_score = exact_skills_score * 0.25 + related_skills_score * 0.15
                       + experience_score * 0.40 + semantic_score * 0.20;
          education_weight = (if required_level > 0 then 0.05 else 0);
          projects_weight =
            (if py_in ''portfolio'' projects_required \<or> py_in ''projects'' projects_required
             then 0.05 else 0);
          conditional_score = education_score * education_weight + projects_score * projects_weight;
          final_score = min (base_score + conditional_score) 1.0
      in \<lparr>final_score = final_score,
          breakdown = \<lparr>exact_skills = exact_skills_score,
                       related_skills = related_skills_score,
                       breakdown.experience = experience_score,
                       breakdown.education = education_score,
                       breakdown.projects = projects_score,
                       breakdown.semantic = semantic_score\<rparr>,
          weights = \<lparr>skills_total = 0.40,
                     weights.experience = 0.40,
                     weights.semantic = 0.20,
                     weights.education = education_weight,
                     weights.projects = projects_weight\<rparr>,
          experience_gap = max 0 (required_years - candidate_years),
          education_sufficient = (if required_level > 0 then candidate_level \<ge> required_level else True),
          exact_matches = exact_matches,
          related_matches = related_matches\<rparr>)"

definition calculate_detailed_breakdown :: "resume_data \<Rightarrow> job \<Rightarrow> detailed_breakdown" where
  "calculate_detailed_breakdown rd jb =
     (let job_requirements = lower (requirements jb);
          resume_skills_lower = map lower (get_or (resume_data.skills rd) []);
          skills_matched = length (filter (\<lambda>skill. py_in skill job_requirements) resume_skills_lower);
          total_resume_skills = (if resume_skills_lower \<noteq> [] then length resume_skills_lower else 1);
          skills_score = min (real skills_matched / max (real total_resume_skills * 0.5) 1) 1.0;
          edu_data = get_or (resume_data.education rd) \<lparr>level = None, summary = None\<rparr>;
          candidate_edu = lower (get_or (level edu_data) []);
          required_edu = lower (get_or (education_required jb) []);
          (candidate_level, required_level) = edu_levels edu_hierarchy candidate_edu required_edu (0, 0);
          education_score =
            (if required_level = 0 then 0.8
             else if candidate_level \<ge> required_level then 1.0
             else if candidate_level = required_level - 1 then 0.8
             else 0.5);
          required_years = parse_required_years jb;
          candidate_years = get_or (years_of_experience rd) 0;
          experience_score =
            (if required_years = 0 then 0.8
             else if candidate_years \<ge> required_years then 1.0
             else if candidate_years \<ge> required_years * 0.7 then 0.8
             else candidate_years / max required_years 1);
          experience_score = min experience_score 1.0;
          projects = get_or (resume_data.projects rd) [];
          projects_score = (if projects \<noteq> [] then min (real (length projects) / 2.0) 1.0 else 0.5);
          overall_score = skills_score * 0.40 + education_score * 0.25
                          + experience_score * 0.25 + projects_score * 0.10
      in \<lparr>overall = overall_score,
          skills = \<lparr>skills_detail.score = skills_score,
                    matched = skills_matched,
                    total = total_resume_skills,
                    missing = identify_missing_skills rd jb\<rparr>,
          education = \<lparr>education_detail.score = education_score,
                       candidate = get_or (summary edu_data) ''Not specified'',
                       education_detail.required = get_or (education_required jb) ''Not specified'',
                       candidate_level = candidate_level,
                       required_level = required_level\<rparr>,
          experience = \<lparr>experience_detail.score = experience_score,
                        candidate_years = candidate_years,
                        required_years = required_years,
                        gap = max 0 (required_years - candidate_years)\<rparr>,
          projects = \<lparr>projects_detail.score = projects_score,
                      count = length projects,
                      projects_detail.required =
                        get_or (job.projects_required jb) ''Portfolio of relevant projects''\<rparr>\<rparr>)"

section \<open>\<^verbatim>\<open>JobMatcher\<close>: the vector index\<close>

text \<open>
  The sentence-embedding model and the FAISS index are libraries. The model's
  \<^verbatim>\<open>encode\<close> is a parameter \<open>encode\<close> from a text to its vector; the search of
  \<^verbatim>\<open>IndexFlatL2\<close> is a parameter \<open>faiss_search\<close> that takes the stored vectors, the
  query vector and \<open>k\<close>, and gives the pairs of \<^verbatim>\<open>zip(indices[0], distances[0])\<close>.
  The index object is modelled by the vectors added to it.
\<close>

datatype error = ValueError string | IndexError

type_synonym embedding = "real list"

type_synonym encoder = "string \<Rightarrow> embedding"

type_synonym searcher = "embedding list \<Rightarrow> embedding \<Rightarrow> int \<Rightarrow> (int \<times> real) list"

record profile =
  title :: "string option"
  skills :: "string option"
  experience :: "string option"

record job_matcher =
  dimension :: nat
  index :: "embedding list option"
  jobs :: "job list"

text \<open>\<^verbatim>\<open>JobMatcher.__init__\<close>, for a model of the given dimension.\<close>

definition new_job_matcher :: "nat \<Rightarrow> job_matcher" where
  "new_job_matcher d = \<lparr>dimension = d, index = None, jobs = []\<rparr>"

definition create_job_embedding :: "encoder \<Rightarrow> job \<Rightarrow> embedding" where
  "create_job_embedding encode jb =
     encode (job.title jb @ '' '' @ company jb @ '' '' @ job.description jb @ '' '' @ requirements jb)"

definition create_profile_embedding :: "encoder \<Rightarrow> profile \<Rightarrow> embedding" where
  "create_profile_embedding encode pr =
     encode (get_or (profile.title pr) [] @ '' '' @ get_or (profile.skills pr) [] @ '' ''
             @ get_or (profile.experience pr) [])"

text \<open>
  \<^verbatim>\<open>build_job_index\<close>. The \<^verbatim>\<open>add\<close> of the FAISS index unpacks the shape of the
  array of embeddings as \<^verbatim>\<open>n, d\<close>. For an empty job list
  \<^verbatim>\<open>np.array([])\<close> has the shape \<^verbatim>\<open>(0,)\<close>, and the unpacking raises a
  \<^verbatim>\<open>ValueError\<close>: a catalog with no job cannot be indexed. The matcher that was
  being updated is lost with the exception, as \<^verbatim>\<open>initialize_matcher\<close>, the only
  caller, holds it in a local variable.
\<close>

definition build_job_index :: "encoder \<Rightarrow> job_matcher \<Rightarrow> job list \<Rightarrow> error + job_matcher" where
  "build_job_index encode m js =
     (let m = m\<lparr>jobs := js\<rparr>;
          embeddings = map (create_job_embedding encode) js
      in if embeddings = []
         then Inl (ValueError ''not enough values to unpack (expected 2, got 1)'')
         else Inr (m\<lparr>index := Some embeddings\<rparr>))"

text \<open>
  \<^verbatim>\<open>self.jobs[idx]\<close>: an index below zero counts from the end of the list, an index
  out of range raises.
\<close>

definition job_at :: "job list \<Rightarrow> int \<Rightarrow> error + job" where
  "job_at js idx =
     (let n = int (length js); i = (if idx < 0 then n + idx else idx)
      in if 0 \<le> i \<and> i < n then Inr (js ! nat i) else Inl IndexError)"

text \<open>The loop of \<^verbatim>\<open>find_matching_jobs\<close> that builds \<^verbatim>\<open>results\<close>.\<close>

fun collect_results :: "job list \<Rightarrow> (int \<times> real) list \<Rightarrow> error + (job \<times> real) list" where
  "collect_results js [] = Inr []"
| "collect_results js ((idx, distance) # rest) =
     (if idx < int (length js) then
        (case job_at js idx of
           Inl e \<Rightarrow> Inl e
         | Inr jb \<Rightarrow>
             (case collect_results js rest of
                Inl e \<Rightarrow> Inl e
              | Inr results \<Rightarrow> Inr ((jb, 1 / (1 + distance)) # results)))
      else collect_results js rest)"

text \<open>
  \<^verbatim>\<open>find_matching_jobs\<close>. The distances of \<^verbatim>\<open>IndexFlatL2\<close> are squared and so
  not negative; \<open>1 / (1 + distance)\<close> is then a division by at least 1.
\<close>

definition find_matching_jobs ::
    "encoder \<Rightarrow> searcher \<Rightarrow> job_matcher \<Rightarrow> profile \<Rightarrow> int \<Rightarrow> error + (job \<times> real) list" where
  "find_matching_jobs encode faiss_search m pr top_k =
     (if index m = None \<or> length (jobs m) = 0
      then Inl (ValueError ''Index not built. Call build_job_index() first.'')
      else
        let profile_emb = create_profile_embedding encode pr;
            hits = faiss_search (the (index m)) profile_emb (min top_k (int (length (jobs m))))
        in collect_results (jobs m) hits)"

section \<open>The match pipeline of \<^verbatim>\<open>show_job_results\<close>\<close>

text \<open>
  The part of the Streamlit session that the pipeline reads. The result of the function
  modelled here is the list \<^verbatim>\<open>matches\<close> that the page then displays; the early
  \<^verbatim>\<open>return\<close> after the warning displays nothing and is the empty list. The
  function initialises the matcher, when the session has none, before it filters the jobs,
  so an exception of \<^verbatim>\<open>initialize_matcher\<close> leaves it before the filter runs.
\<close>

record session_state =
  job_matcher :: "job_matcher option"
  selected_roles :: "string list"
  parsed_resume_data :: resume_data

text \<open>\<^verbatim>\<open>initialize_matcher\<close>; the model's dimension is a parameter.\<close>

definition initialize_matcher :: "encoder \<Rightarrow> nat \<Rightarrow> job list \<Rightarrow> error + job_matcher" where
  "initialize_matcher encode d js = build_job_index encode (new_job_matcher d) js"

text \<open>The matcher that \<^verbatim>\<open>initialize_matcher\<close> returns for a catalog that is not empty.\<close>

definition built_matcher :: "encoder \<Rightarrow> nat \<Rightarrow> job list \<Rightarrow> job_matcher" where
  "built_matcher encode d js =
     \<lparr>dimension = d, index = Some (map (create_job_embedding encode) js), jobs = js\<rparr>"

text \<open>The role filter: the inner loop over the selected roles, with its \<^verbatim>\<open>break\<close>.\<close>

definition role_matches :: "string list \<Rightarrow> job \<Rightarrow> bool" where
  "role_matches roles jb = list_ex (\<lambda>role. py_in (lower role) (lower (job.title jb))) roles"

text \<open>
  The breakdown of one match: the detailed breakdown with the key
  \<^verbatim>\<open>smart_score\<close> added.
\<close>

record match_breakdown = detailed_breakdown +
  smart_score :: smart_score

type_synonym match = "job \<times> real \<times> match_breakdown"

text \<open>The search for this job's score among \<^verbatim>\<open>ml_matches\<close>, from the default.\<close>

fun lookup_semantic :: "(job \<times> real) list \<Rightarrow> job \<Rightarrow> real" where
  "lookup_semantic [] jb = 0.5"
| "lookup_semantic ((matched_job, sc) # rest) jb =
     (if job_id matched_job = job_id jb then sc else lookup_semantic rest jb)"

text \<open>The \<^verbatim>\<open>profile\<close> dictionary that the loop builds for the index search.\<close>

definition pipeline_profile :: "session_state \<Rightarrow> profile" where
  "pipeline_profile st =
     \<lparr>profile.title = Some (join '' '' (selected_roles st)),
      profile.skills = Some (join '' '' (get_or (resume_data.skills (parsed_resume_data st)) [])),
      profile.experience = Some (get_or (full_text (parsed_resume_data st)) [])\<rparr>"

text \<open>
  The body of the loop over \<^verbatim>\<open>filtered_jobs\<close> after the index search: the match
  for one job, from the search results \<^verbatim>\<open>ml_matches\<close>.
\<close>

definition score_job :: "session_state \<Rightarrow> (job \<times> real) list \<Rightarrow> job \<Rightarrow> match" where
  "score_job st ml_matches jb =
     (let resume_data = parsed_resume_data st;
          ml_semantic_score = lookup_semantic ml_matches jb;
          smart_score_result = calculate_smart_score resume_data jb ml_semantic_score;
          final_score = smart_score.final_score smart_score_result;
          bd = calculate_detailed_breakdown resume_data jb;
          bd = detailed_breakdown.extend bd (match_breakdown.fields smart_score_result);
          bd = bd\<lparr>overall := final_score\<rparr>
      in (jb, final_score, bd))"

text \<open>
  The loop over \<^verbatim>\<open>filtered_jobs\<close>, which searches the index anew for every job;
  \<open>k\<close> is \<^verbatim>\<open>len(filtered_jobs)\<close>.
\<close>

fun score_jobs ::
    "encoder \<Rightarrow> searcher \<Rightarrow> job_matcher \<Rightarrow> session_state \<Rightarrow> int \<Rightarrow> job list \<Rightarrow> error + match list" where
  "score_jobs encode faiss_search m st k [] = Inr []"
| "score_jobs encode faiss_search m st k (jb # rest) =
     (case find_matching_jobs encode faiss_search m (pipeline_profile st) k of
        Inl e \<Rightarrow> Inl e
      | Inr ml_matches \<Rightarrow>
          (case score_jobs encode faiss_search m st k rest of
             Inl e \<Rightarrow> Inl e
           | Inr matches \<Rightarrow> Inr (score_job st ml_matches jb # matches)))"

definition show_job_results ::
    "encoder \<Rightarrow> searcher \<Rightarrow> nat \<Rightarrow> job list \<Rightarrow> session_state \<Rightarrow> error + match list" where
  "show_job_results encode faiss_search d js st =
     (case (case job_matcher st of None \<Rightarrow> initialize_matcher encode d js | Some m \<Rightarrow> Inr m) of
        Inl e \<Rightarrow> Inl e
      | Inr m \<Rightarrow>
          let filtered_jobs = filter (role_matches (selected_roles st)) js
          in if filtered_jobs = [] then Inr []
             else
               (case score_jobs encode faiss_search m st (int (length filtered_jobs)) filtered_jobs of
                  Inl e \<Rightarrow> Inl e
                | Inr matches \<Rightarrow> Inr (sort_key (\<lambda>(jb, final_score, bd). - final_score) matches)))"

section \<open>The specification's words, for comparison with the code\<close>

text \<open>
  The required years as the specification words them: the first integer found in the
  string, and 0 when there is none.
\<close>

definition spec_first_integer :: "string \<Rightarrow> nat" where
  "spec_first_integer s =
     (case dropWhile (\<lambda>c. \<not> is_digit c) s of
        [] \<Rightarrow> 0
      | ds \<Rightarrow> int_of_digits (takeWhile is_digit ds))"

text \<open>
  The experience ladder as the specification words it, for \<open>req\<close> required years and
  \<open>cand\<close> candidate years.
\<close>

definition spec_experience_ladder :: "real \<Rightarrow> real \<Rightarrow> real" where
  "spec_experience_ladder req cand =
     (if req = 0 then 0.8
      else if cand \<ge> req then 1.0
      else if cand \<ge> 0.7 * req then 0.85
      else if cand \<ge> 0.5 * req then 0.65
      else min (cand / max req 1) 1.0)"

text \<open>
  A whole word, as the specification's "whole-word, case-insensitive" matching reads: the
  term occurs in the text, in any casing, with no word character (letter, digit or
  underscore) right before it and none right after it. \<open>whole_word_at w b a\<close> is an
  occurrence of \<open>w\<close> at the position with the text \<open>b\<close> (reversed) before it and \<open>a\<close>
  from it on.
\<close>

fun whole_word_at :: "string \<Rightarrow> string \<Rightarrow> string \<Rightarrow> bool" where
  "whole_word_at w b a =
     (starts_with a w
      \<and> (case b of [] \<Rightarrow> True | x # _ \<Rightarrow> \<not> is_word x)
      \<and> (case drop (length w) a of [] \<Rightarrow> True | y # _ \<Rightarrow> \<not> is_word y))"

fun whole_word_from :: "string \<Rightarrow> string \<Rightarrow> string \<Rightarrow> bool" where
  "whole_word_from w b [] = whole_word_at w b []"
| "whole_word_from w b (c # cs) = (whole_word_at w b (c # cs) \<or> whole_word_from w (c # b) cs)"

definition spec_whole_word :: "string \<Rightarrow> string \<Rightarrow> bool" where
  "spec_whole_word w t = whole_word_from (lower w) [] (lower t)"

text \<open>A score that lies in \<open>[0, 1]\<close>.\<close>

definition in_unit :: "real \<Rightarrow> bool" where
  "in_unit x = (0 \<le> x \<and> x \<le> 1)"

section \<open>Sample inputs\<close>

text \<open>
  The job of the specification's worked example, with no education or projects text, and
  a resume profile that goes with it.
\<close>

definition backend_job :: job where
  "backend_job =
     \<lparr>job_id = 1, job.title = ''Backend Developer'', company = ''Acme'',
      job.description = ''Build services'', requirements = ''Python SQL Docker'',
      job.experience = Some ''3+'', education_required = Some [], projects_required = Some []\<rparr>"

definition sample_resume :: resume_data where
  "sample_resume =
     \<lparr>resume_data.skills = Some [''Python'', ''SQL''],
      resume_data.education =
        Some \<lparr>level = Some ''Bachelor'', summary = Some ''Bachelor in Computer Science''\<rparr>,
      years_of_experience = Some 5,
      resume_data.projects = Some [],
      full_text = Some ''Python and SQL developer, 5 years of experience''\<rparr>"

text \<open>
  Stand-ins for the two libraries: an encoder that gives the length of the text, and an
  index search that gives the first \<open>k\<close> positions, each at distance 3.
\<close>

definition sample_encode :: encoder where
  "sample_encode s = [real (length s)]"

definition sample_search :: searcher where
  "sample_search vs q k = map (\<lambda>i. (int i, 3)) [0 ..< min (nat k) (length vs)]"

text \<open>A catalog of three jobs, and a fresh session that selects one role.\<close>

definition sample_catalog :: "job list" where
  "sample_catalog =
     [backend_job\<lparr>job_id := 2, job.title := ''Senior backend developer'', requirements := ''Java'',
                  job.experience := Some ''8''\<rparr>,
      backend_job\<lparr>job_id := 3, job.title := ''Data Scientist''\<rparr>,
      backend_job]"

definition sample_session :: session_state where
  "sample_session =
     \<lparr>job_matcher = None, selected_roles = [''Backend Developer''],
      parsed_resume_data = sample_resume\<rparr>"

text \<open>A profile and a job for which every sub-score is at its maximum.\<close>

definition strong_resume :: resume_data where
  "strong_resume =
     \<lparr>resume_data.skills = Some [''Python'', ''SQL''],
      resume_data.education = Some \<lparr>level = Some ''PhD'', summary = Some ''PhD in Computer Science''\<rparr>,
      years_of_experience = Some 5,
      resume_data.projects =
        Some [\<lparr>project.title = ''Ledger'', project.description = ''Ledger - built a payments ledger''\<rparr>,
              \<lparr>project.title = ''Search'', project.description = ''Search - deployed a search service''\<rparr>],
      full_text = Some ''Python and SQL developer, 5 years of experience''\<rparr>"

definition demanding_job :: job where
  "demanding_job =
     backend_job\<lparr>education_required := Some ''Masters degree'',
                 projects_required := Some ''Portfolio of relevant projects''\<rparr>"

section \<open>Regular expressions: the digit runs\<close>

lemma takeWhile_take_length: "take (length (takeWhile P xs)) xs = takeWhile P xs"
  by (induction xs) auto

lemma match_here_digits:
  "match_here ic (Many P (Suc 0)) b (c # cs) =
     (if P c then Some (length (takeWhile P (c # cs)), [takeWhile P (c # cs)]) else None)"
proof (cases "P c")
  case False
  then show ?thesis by (simp add: match_here_def)
next
  case True
  let ?k = "length (takeWhile P cs)"
  have k: "?k \<le> length cs" by (rule length_takeWhile_le)
  have "rev [Suc 0 ..< Suc (Suc ?k)] = Suc ?k # rev [Suc 0 ..< Suc ?k]"
    by simp
  then show ?thesis using True k
    by (simp add: match_here_def takeWhile_take_length del: upt_Suc)
qed

text \<open>The first result of \<^verbatim>\<open>findall(r'\d+', s)\<close> is the first run of digits of \<open>s\<close>.\<close>

lemma scan_digits_first:
  "(case scan ic (Many is_digit (Suc 0)) b s of [] \<Rightarrow> [] | g # _ \<Rightarrow> g) =
     (case dropWhile (\<lambda>c. \<not> is_digit c) s of [] \<Rightarrow> [] | ds \<Rightarrow> [takeWhile is_digit ds])"
proof (induction s arbitrary: b)
  case Nil
  show ?case by (simp add: match_here_def)
next
  case (Cons c cs)
  show ?case
  proof (cases "is_digit c")
    case True
    then show ?thesis by (simp add: match_here_digits del: rmatch.simps)
  next
    case False
    then show ?thesis using Cons.IH by (simp add: match_here_digits del: rmatch.simps)
  qed
qed

lemma int_of_digits_Nil: "int_of_digits [] = 0"
  by (simp add: int_of_digits_def)

lemma first_of_case:
  "int_of_digits (case (case xs of [] \<Rightarrow> [] | a # l \<Rightarrow> [f (a # l)]) of [] \<Rightarrow> [] | x # _ \<Rightarrow> x)
     = (case xs of [] \<Rightarrow> 0 | a # l \<Rightarrow> int_of_digits (f (a # l)))"
  by (cases xs) (simp_all add: int_of_digits_Nil)

lemma parse_required_years_spec:
  "parse_required_years jb = real (spec_first_integer (get_or (job.experience jb) ''0+''))"
proof -
  let ?s = "get_or (job.experience jb) ''0+''"
  have "(case findall_strings False (Many is_digit 1) ?s of [] \<Rightarrow> 0 | m # _ \<Rightarrow> real (int_of_digits m))
        = real (int_of_digits (case (case scan False (Many is_digit (Suc 0)) [] ?s of [] \<Rightarrow> [] | g # _ \<Rightarrow> g) of [] \<Rightarrow> [] | x # _ \<Rightarrow> x))"
    by (simp add: findall_strings_def findall_def int_of_digits_Nil split: list.splits)
  also have "\<dots> = real (spec_first_integer ?s)"
    unfolding scan_digits_first spec_first_integer_def
    by (simp only: first_of_case)
  finally show ?thesis by (simp add: parse_required_years_def Let_def)
qed

section \<open>The parts of the two scores\<close>

lemma smart_experience:
  "breakdown.experience (breakdown (calculate_smart_score rd jb s)) =
     min (if parse_required_years jb = 0 then 0.8
          else if get_or (years_of_experience rd) 0 \<ge> parse_required_years jb then 1.0
          else if get_or (years_of_experience rd) 0 \<ge> parse_required_years jb * 0.7 then 0.85
          else if get_or (years_of_experience rd) 0 \<ge> parse_required_years jb * 0.5 then 0.65
          else get_or (years_of_experience rd) 0 / max (parse_required_years jb) 1) 1.0"
  unfolding calculate_smart_score_def Let_def split_beta
  by (simp only: smart_score.select_convs breakdown.select_convs)

lemma smart_exact_skills:
  "exact_skills (breakdown (calculate_smart_score rd jb s)) =
     min (real (exact_matches (calculate_smart_score rd jb s))
          / max (real (if map lower (get_or (resume_data.skills rd) []) \<noteq> []
                       then length (map lower (get_or (resume_data.skills rd) [])) else 1) * 0.5) 1) 1.0"
  unfolding calculate_smart_score_def Let_def split_beta
  by (simp only: smart_score.select_convs breakdown.select_convs)

lemma smart_exact_matches:
  "exact_matches (calculate_smart_score rd jb s) =
     length (filter (\<lambda>skill. py_in skill (lower (requirements jb)))
               (map lower (get_or (resume_data.skills rd) [])))"
  unfolding calculate_smart_score_def Let_def split_beta
  by (simp only: smart_score.select_convs)

lemma smart_related_matches:
  "related_matches (calculate_smart_score rd jb s) =
     length (filter (\<lambda>skill. related_hit skill_synonyms skill (lower (requirements jb)))
               (map lower (get_or (resume_data.skills rd) [])))"
  unfolding calculate_smart_score_def Let_def split_beta
  by (simp only: smart_score.select_convs)

lemma smart_related_skills:
  "related_skills (breakdown (calculate_smart_score rd jb s)) =
     min (real (related_matches (calculate_smart_score rd jb s))
          / max (real (if map lower (get_or (resume_data.skills rd) []) \<noteq> []
                       then length (map lower (get_or (resume_data.skills rd) [])) else 1) * 0.3) 1) 1.0"
  unfolding calculate_smart_score_def Let_def split_beta
  by (simp only: smart_score.select_convs breakdown.select_convs)

lemma smart_semantic:
  "breakdown.semantic (breakdown (calculate_smart_score rd jb s)) = s"
  unfolding calculate_smart_score_def Let_def split_beta
  by (simp only: smart_score.select_convs breakdown.select_convs)

lemma smart_projects:
  "breakdown.projects (breakdown (calculate_smart_score rd jb s)) =
     (if py_in ''portfolio'' (lower (get_or (job.projects_required jb) []))
         \<or> py_in ''projects'' (lower (get_or (job.projects_required jb) []))
      then (if get_or (resume_data.projects rd) [] \<noteq> []
            then min (real (length (get_or (resume_data.projects rd) [])) / 2.0) 1.0 else 0.4)
      else 0.7)"
  unfolding calculate_smart_score_def Let_def split_beta
  by (simp only: smart_score.select_convs breakdown.select_convs)

lemma smart_weights_projects:
  "weights.projects (weights (calculate_smart_score rd jb s)) =
     (if py_in ''portfolio'' (lower (get_or (job.projects_required jb) []))
         \<or> py_in ''projects'' (lower (get_or (job.projects_required jb) []))
      then 0.05 else 0)"
  unfolding calculate_smart_score_def Let_def split_beta
  by (simp only: smart_score.select_convs weights.select_convs)

lemma smart_levels:
  "edu_levels edu_hierarchy
     (lower (get_or (level (get_or (resume_data.education rd) \<lparr>level = None, summary = None\<rparr>)) []))
     (lower (get_or (education_required jb) [])) (0, 0)
   = (candidate_level (detailed_breakdown.education (calculate_detailed_breakdown rd jb)),
      required_level (detailed_breakdown.education (calculate_detailed_breakdown rd jb)))"
  unfolding calculate_detailed_breakdown_def Let_def split_beta
  by (simp only: detailed_breakdown.select_convs education_detail.select_convs prod.collapse)

lemma smart_education:
  "breakdown.education (breakdown (calculate_smart_score rd jb s)) =
     (let lv = edu_levels edu_hierarchy
                 (lower (get_or (level (get_or (resume_data.education rd) \<lparr>level = None, summary = None\<rparr>)) []))
                 (lower (get_or (education_required jb) [])) (0, 0)
      in if snd lv = 0 then 0.8 else if fst lv \<ge> snd lv then 1.0
         else if fst lv = snd lv - 1 then 0.85 else 0.6)"
  unfolding calculate_smart_score_def Let_def split_beta
  by (simp only: smart_score.select_convs breakdown.select_convs)

lemma smart_weights_education:
  "weights.education (weights (calculate_smart_score rd jb s)) =
     (if snd (edu_levels edu_hierarchy
                 (lower (get_or (level (get_or (resume_data.education rd) \<lparr>level = None, summary = None\<rparr>)) []))
                 (lower (get_or (education_required jb) [])) (0, 0)) > 0 then 0.05 else 0)"
  unfolding calculate_smart_score_def Let_def split_beta
  by (simp only: smart_score.select_convs weights.select_convs)

lemma detailed_education:
  "education_detail.score (detailed_breakdown.education (calculate_detailed_breakdown rd jb)) =
     (let lv = edu_levels edu_hierarchy
                 (lower (get_or (level (get_or (resume_data.education rd) \<lparr>level = None, summary = None\<rparr>)) []))
                 (lower (get_or (education_required jb) [])) (0, 0)
      in if snd lv = 0 then 0.8 else if fst lv \<ge> snd lv then 1.0
         else if fst lv = snd lv - 1 then 0.8 else 0.5)"
  unfolding calculate_detailed_breakdown_def Let_def split_beta
  by (simp only: detailed_breakdown.select_convs education_detail.select_convs)

lemma detailed_projects:
  "projects_detail.score (detailed_breakdown.projects (calculate_detailed_breakdown rd jb)) =
     (if get_or (resume_data.projects rd) [] \<noteq> []
      then min (real (length (get_or (resume_data.projects rd) [])) / 2.0) 1.0 else 0.5)"
  unfolding calculate_detailed_breakdown_def Let_def split_beta
  by (simp only: detailed_breakdown.select_convs projects_detail.select_convs)

lemma smart_final:
  "final_score (calculate_smart_score rd jb s) =
     (let r = calculate_smart_score rd jb s; b = breakdown r; w = weights r
      in min (exact_skills b * 0.25 + related_skills b * 0.15 + breakdown.experience b * 0.40
              + breakdown.semantic b * 0.20
              + (breakdown.education b * weights.education w + breakdown.projects b * weights.projects w)) 1.0)"
  unfolding calculate_smart_score_def Let_def split_beta
  by (simp only: smart_score.select_convs breakdown.select_convs weights.select_convs)

subsection \<open>Claim C6: the two education ladders\<close>

lemma edu_levels_nonneg:
  "0 \<le> cl \<Longrightarrow> 0 \<le> rl \<Longrightarrow> \<forall>(k, v) \<in> set h. 0 \<le> v \<Longrightarrow>
   0 \<le> fst (edu_levels h c r (cl, rl)) \<and> 0 \<le> snd (edu_levels h c r (cl, rl))"
proof (induction h arbitrary: cl rl)
  case Nil
  then show ?case by simp
next
  case (Cons kv h)
  obtain k v where kv: "kv = (k, v)" by (cases kv)
  have v: "0 \<le> v" using Cons.prems(3) kv by simp
  have rest: "\<forall>(k, v) \<in> set h. 0 \<le> v" using Cons.prems(3) by simp
  show ?case
    unfolding kv edu_levels.simps
    by (rule Cons.IH) (use Cons.prems(1,2) v rest in \<open>simp_all add: max_def\<close>)
qed

lemma edu_hierarchy_nonneg: "\<forall>(k, v) \<in> set edu_hierarchy. 0 \<le> v"
  by (simp add: edu_hierarchy_def)

lemma detected_levels_nonneg:
  "0 \<le> fst (edu_levels edu_hierarchy c r (0, 0)) \<and> 0 \<le> snd (edu_levels edu_hierarchy c r (0, 0))"
  by (rule edu_levels_nonneg) (simp_all add: edu_hierarchy_nonneg)

text \<open>
  Claim C6. \<^verbatim>\<open>calculate_smart_score\<close> and \<^verbatim>\<open>calculate_detailed_breakdown\<close> use
  different education ladders: when the candidate's detected tier is exactly one level
  below the tier the job requires, the education sub-score of the smart score is 0.85 and
  the education score of the detailed breakdown is 0.8. The detected tiers are the levels
  that the detailed breakdown reports; both functions compute them with the same loop.
\<close>

theorem education_ladders_differ:
  assumes "candidate_level (detailed_breakdown.education (calculate_detailed_breakdown rd jb))
           = required_level (detailed_breakdown.education (calculate_detailed_breakdown rd jb)) - 1"
  shows "breakdown.education (breakdown (calculate_smart_score rd jb s)) = 0.85
         \<and> education_detail.score (detailed_breakdown.education (calculate_detailed_breakdown rd jb)) = 0.8"
proof -
  let ?lv = "edu_levels edu_hierarchy
     (lower (get_or (level (get_or (resume_data.education rd) \<lparr>level = None, summary = None\<rparr>)) []))
     (lower (get_or (education_required jb) [])) (0, 0)"
  have eq: "fst ?lv = snd ?lv - 1"
    using assms by (simp add: smart_levels)
  have "0 \<le> fst ?lv" by (rule detected_levels_nonneg[THEN conjunct1])
  with eq have pos: "snd ?lv \<noteq> 0" and lt: "\<not> snd ?lv \<le> fst ?lv" by simp_all
  show ?thesis
    unfolding smart_education detailed_education Let_def
    using pos lt eq by simp
qed

text \<open>
  A candidate with a Bachelor's level and a job that requires a Master's: tiers 3 and 4.
\<close>

theorem education_ladders_differ_witness:
  "candidate_level (detailed_breakdown.education
       (calculate_detailed_breakdown sample_resume (backend_job\<lparr>education_required := Some ''Masters''\<rparr>)))
     = required_level (detailed_breakdown.education
         (calculate_detailed_breakdown sample_resume (backend_job\<lparr>education_required := Some ''Masters''\<rparr>))) - 1
   \<and> breakdown.education (breakdown
         (calculate_smart_score sample_resume (backend_job\<lparr>education_required := Some ''Masters''\<rparr>) (1 / 2)))
       = 0.85
   \<and> education_detail.score (detailed_breakdown.education
         (calculate_detailed_breakdown sample_resume (backend_job\<lparr>education_required := Some ''Masters''\<rparr>)))
       = 0.8"
proof -
  have h: "candidate_level (detailed_breakdown.education
       (calculate_detailed_breakdown sample_resume (backend_job\<lparr>education_required := Some ''Masters''\<rparr>)))
     = required_level (detailed_breakdown.education
         (calculate_detailed_breakdown sample_resume (backend_job\<lparr>education_required := Some ''Masters''\<rparr>))) - 1"
    by code_simp
  show ?thesis
    using h education_ladders_differ[OF h, of "1 / 2"] by simp
qed

subsection \<open>Claim C8: the experience sub-score is monotone in the candidate's years\<close>

lemma parse_required_years_ge1: "parse_required_years jb \<noteq> 0 \<Longrightarrow> 1 \<le> parse_required_years jb"
  by (simp add: parse_required_years_spec)

text \<open>The ladder of the smart score is monotone, the required years being fixed.\<close>

lemma smart_ladder_mono:
  fixes r a b :: real
  assumes ab: "a \<le> b" and r1: "r \<noteq> 0 \<Longrightarrow> 1 \<le> r"
  shows "min (if r = 0 then 0.8 else if a \<ge> r then 1.0 else if a \<ge> r * 0.7 then 0.85
              else if a \<ge> r * 0.5 then 0.65 else a / max r 1) 1.0
         \<le> min (if r = 0 then 0.8 else if b \<ge> r then 1.0 else if b \<ge> r * 0.7 then 0.85
              else if b \<ge> r * 0.5 then 0.65 else b / max r 1) (1.0::real)"
proof (cases "r = 0")
  case True
  then show ?thesis by simp
next
  case False
  then have r: "1 \<le> r" using r1 by simp
  then have m: "max r 1 = r" and rpos: "0 < r" by simp_all
  define f where "f x = (if x \<ge> r then 1.0 else if x \<ge> r * 0.7 then 0.85
              else if x \<ge> r * 0.5 then 0.65 else x / r)" for x :: real
  have fa1: "f a \<le> 1"
    using rpos by (auto simp: f_def field_simps)
  have goal: "f a \<le> f b"
  proof -
    consider (A) "b \<ge> r" | (B) "b < r" "b \<ge> r * 0.7" | (C) "b < r * 0.7" "b \<ge> r * 0.5"
      | (D) "b < r * 0.5"
      by linarith
    then show ?thesis
    proof cases
      case A
      then have "f b = 1" by (simp add: f_def)
      with fa1 show ?thesis by simp
    next
      case B
      then have fb: "f b = 0.85" by (simp add: f_def)
      have "a < r" using ab B(1) by simp
      then have "f a \<le> 0.85" using rpos by (auto simp: f_def field_simps)
      with fb show ?thesis by simp
    next
      case C
      then have fb: "f b = 0.65" using r by (simp add: f_def)
      have "a < r * 0.7" using ab C(1) by simp
      then have "f a \<le> 0.65" using rpos by (auto simp: f_def field_simps)
      with fb show ?thesis by simp
    next
      case D
      then have fb: "f b = b / r" using r by (simp add: f_def)
      have "a < r * 0.5" using ab D by simp
      then have "f a = a / r" using r by (simp add: f_def)
      moreover have "a / r \<le> b / r" using ab r by (simp add: divide_right_mono)
      ultimately show ?thesis using fb by simp
    qed
  qed
  have "min (f a) 1 \<le> min (f b) 1"
    using goal by (simp add: min_def)
  then show ?thesis
    using False unfolding m f_def by simp
qed

text \<open>
  Claim C8. For jobs with the same parsed required years and profiles with candidate years
  \<open>a \<le> b\<close>, the experience sub-score of \<^verbatim>\<open>calculate_smart_score\<close> for \<open>a\<close> is at most
  the one for \<open>b\<close>, whatever the other inputs are.
\<close>

theorem experience_monotone:
  assumes "parse_required_years j1 = parse_required_years j2"
    and "get_or (years_of_experience rd1) 0 \<le> get_or (years_of_experience rd2) 0"
  shows "breakdown.experience (breakdown (calculate_smart_score rd1 j1 s1))
         \<le> breakdown.experience (breakdown (calculate_smart_score rd2 j2 s2))"
  unfolding smart_experience assms(1)
  by (rule smart_ladder_mono[OF assms(2)]) (rule parse_required_years_ge1)

text \<open>One year and two years against the three required years of the sample job.\<close>

theorem experience_monotone_witness:
  "parse_required_years backend_job = parse_required_years backend_job
   \<and> get_or (years_of_experience (sample_resume\<lparr>years_of_experience := Some 1\<rparr>)) 0
       \<le> get_or (years_of_experience (sample_resume\<lparr>years_of_experience := Some 2\<rparr>)) 0
   \<and> breakdown.experience (breakdown
         (calculate_smart_score (sample_resume\<lparr>years_of_experience := Some 1\<rparr>) backend_job (1 / 2)))
       \<le> breakdown.experience (breakdown
         (calculate_smart_score (sample_resume\<lparr>years_of_experience := Some 2\<rparr>) backend_job (1 / 2)))"
proof -
  have h: "get_or (years_of_experience (sample_resume\<lparr>years_of_experience := Some 1\<rparr>)) 0
       \<le> get_or (years_of_experience (sample_resume\<lparr>years_of_experience := Some 2\<rparr>)) 0"
    by (simp add: get_or_def)
  show ?thesis
    using h experience_monotone[OF refl h, of backend_job "1 / 2" "1 / 2"] by simp
qed

subsection \<open>Claim C10: the projects score of the detailed breakdown\<close>

text \<open>
  Claim C10. The projects score of \<^verbatim>\<open>calculate_detailed_breakdown\<close> is
  \<open>min (count / 2) 1\<close> when at least one project was detected and 0.5 when none was; it
  is the same for every job, so it does not depend on the job's
  \<^verbatim>\<open>projects_required\<close> text; and with no project detected it differs from the
  projects sub-score of \<^verbatim>\<open>calculate_smart_score\<close>, which is then 0.4 or 0.7.
\<close>

theorem detailed_projects_score:
  "projects_detail.score (detailed_breakdown.projects (calculate_detailed_breakdown rd jb))
     = (if get_or (resume_data.projects rd) [] = [] then 0.5
        else min (real (length (get_or (resume_data.projects rd) [])) / 2.0) 1.0)
   \<and> projects_detail.score (detailed_breakdown.projects (calculate_detailed_breakdown rd jb))
     = projects_detail.score (detailed_breakdown.projects (calculate_detailed_breakdown rd jb'))
   \<and> breakdown.projects (breakdown (calculate_smart_score (rd\<lparr>resume_data.projects := Some []\<rparr>) jb s))
     \<noteq> projects_detail.score (detailed_breakdown.projects
           (calculate_detailed_breakdown (rd\<lparr>resume_data.projects := Some []\<rparr>) jb))"
  unfolding detailed_projects smart_projects
  by (simp add: get_or_def)

subsection \<open>Claim C2: the experience ladder\<close>

lemma lower_Python: "lower ''Python'' = ''python''"
  by (simp add: lower_def lower_char_def)

lemma lower_SQL: "lower ''SQL'' = ''sql''"
  by (simp add: lower_def lower_char_def)

lemma lower_requirements: "lower ''Python SQL Docker'' = ''python sql docker''"
  by (simp add: lower_def lower_char_def)

text \<open>
  Claim C2. The experience sub-score of \<^verbatim>\<open>calculate_smart_score\<close> is the
  specification's ladder applied to the required years, which are the first integer in
  the job's experience string (0 when there is none, and for the default \<^verbatim>\<open>'0+'\<close> of
  a job without the key), and to the candidate's years. For a job with experience
  \<^verbatim>\<open>"3+"\<close> and requirements \<^verbatim>\<open>"Python SQL Docker"\<close>, a profile with the skills
  Python and SQL and 5 years has experience sub-score 1.0 and exact-skills sub-score 1.0.
\<close>

theorem experience_ladder_spec:
  "breakdown.experience (breakdown (calculate_smart_score rd jb s))
     = spec_experience_ladder (real (spec_first_integer (get_or (job.experience jb) ''0+'')))
         (get_or (years_of_experience rd) 0)
   \<and> breakdown.experience (breakdown (calculate_smart_score
         (rd\<lparr>resume_data.skills := Some [''Python'', ''SQL''], years_of_experience := Some 5\<rparr>)
         (jb\<lparr>requirements := ''Python SQL Docker'', job.experience := Some ''3+''\<rparr>) s)) = 1.0
   \<and> exact_skills (breakdown (calculate_smart_score
         (rd\<lparr>resume_data.skills := Some [''Python'', ''SQL''], years_of_experience := Some 5\<rparr>)
         (jb\<lparr>requirements := ''Python SQL Docker'', job.experience := Some ''3+''\<rparr>) s)) = 1.0"
proof (intro conjI)
  show "breakdown.experience (breakdown (calculate_smart_score rd jb s))
     = spec_experience_ladder (real (spec_first_integer (get_or (job.experience jb) ''0+'')))
         (get_or (years_of_experience rd) 0)"
    unfolding smart_experience parse_required_years_spec spec_experience_ladder_def
    by (simp add: min_def mult.commute)
next
  have three: "spec_first_integer ''3+'' = 3"
    by (simp add: spec_first_integer_def is_digit_def int_of_digits_def digit_val_def)
  show "breakdown.experience (breakdown (calculate_smart_score
         (rd\<lparr>resume_data.skills := Some [''Python'', ''SQL''], years_of_experience := Some 5\<rparr>)
         (jb\<lparr>requirements := ''Python SQL Docker'', job.experience := Some ''3+''\<rparr>) s)) = 1.0"
    unfolding smart_experience parse_required_years_spec
    by (simp add: get_or_def three)
next
  show "exact_skills (breakdown (calculate_smart_score
         (rd\<lparr>resume_data.skills := Some [''Python'', ''SQL''], years_of_experience := Some 5\<rparr>)
         (jb\<lparr>requirements := ''Python SQL Docker'', job.experience := Some ''3+''\<rparr>) s)) = 1.0"
    unfolding smart_exact_skills smart_exact_matches
    by (simp add: get_or_def lower_Python lower_SQL lower_requirements)
qed

subsection \<open>Claim C5: no education requirement, no education weight\<close>

lemma edu_levels_required_unchanged:
  "\<forall>(k, v) \<in> set h. \<not> py_in k r \<Longrightarrow> snd (edu_levels h c r (cl, rl)) = rl"
proof (induction h arbitrary: cl rl)
  case Nil
  then show ?case by simp
next
  case (Cons kv h)
  obtain k v where kv: "kv = (k, v)" by (cases kv)
  have no: "\<not> py_in k r" and rest: "\<forall>(k, v) \<in> set h. \<not> py_in k r"
    using Cons.prems kv by simp_all
  show ?case
    unfolding kv edu_levels.simps using no Cons.IH[OF rest] by simp
qed

lemma smart_final_unweighted:
  assumes "weights.education (weights (calculate_smart_score rd jb s)) = 0"
  shows "final_score (calculate_smart_score rd jb s)
        = min (exact_skills (breakdown (calculate_smart_score rd jb s)) * 0.25
               + related_skills (breakdown (calculate_smart_score rd jb s)) * 0.15
               + breakdown.experience (breakdown (calculate_smart_score rd jb s)) * 0.40
               + breakdown.semantic (breakdown (calculate_smart_score rd jb s)) * 0.20
               + breakdown.projects (breakdown (calculate_smart_score rd jb s))
                 * weights.projects (weights (calculate_smart_score rd jb s))) 1.0"
proof -
  define r where "r = calculate_smart_score rd jb s"
  have "final_score r = min (exact_skills (breakdown r) * 0.25 + related_skills (breakdown r) * 0.15
              + breakdown.experience (breakdown r) * 0.40 + breakdown.semantic (breakdown r) * 0.20
              + (breakdown.education (breakdown r) * weights.education (weights r)
                 + breakdown.projects (breakdown r) * weights.projects (weights r))) 1.0"
    unfolding r_def using smart_final[of rd jb s] by (simp only: Let_def)
  moreover have "weights.education (weights r) = 0" using assms r_def by simp
  ultimately show ?thesis unfolding r_def[symmetric] by simp
qed

lemma education_update_parts:
  "exact_skills (breakdown (calculate_smart_score (rd\<lparr>resume_data.education := e\<rparr>) jb s))
     = exact_skills (breakdown (calculate_smart_score rd jb s))"
  "related_skills (breakdown (calculate_smart_score (rd\<lparr>resume_data.education := e\<rparr>) jb s))
     = related_skills (breakdown (calculate_smart_score rd jb s))"
  "breakdown.experience (breakdown (calculate_smart_score (rd\<lparr>resume_data.education := e\<rparr>) jb s))
     = breakdown.experience (breakdown (calculate_smart_score rd jb s))"
  "breakdown.semantic (breakdown (calculate_smart_score (rd\<lparr>resume_data.education := e\<rparr>) jb s))
     = breakdown.semantic (breakdown (calculate_smart_score rd jb s))"
  "breakdown.projects (breakdown (calculate_smart_score (rd\<lparr>resume_data.education := e\<rparr>) jb s))
     = breakdown.projects (breakdown (calculate_smart_score rd jb s))"
  "weights.projects (weights (calculate_smart_score (rd\<lparr>resume_data.education := e\<rparr>) jb s))
     = weights.projects (weights (calculate_smart_score rd jb s))"
  unfolding smart_exact_skills smart_exact_matches smart_related_skills smart_related_matches
      smart_experience smart_semantic smart_projects smart_weights_projects
  by simp_all

text \<open>
  Claim C5. When no tier keyword of \<^verbatim>\<open>edu_hierarchy\<close> occurs in the job's
  \<^verbatim>\<open>education_required\<close> text (as when the text is empty or absent), the education
  weight that \<^verbatim>\<open>calculate_smart_score\<close> returns is 0, the final score is the clamped
  sum of the other terms alone, and it stays the same when the candidate's education is
  replaced by any other.
\<close>

theorem education_weight_zero:
  assumes "\<forall>(key, v) \<in> set edu_hierarchy. \<not> py_in key (lower (get_or (education_required jb) []))"
  shows "weights.education (weights (calculate_smart_score rd jb s)) = 0
    \<and> final_score (calculate_smart_score rd jb s)
        = min (exact_skills (breakdown (calculate_smart_score rd jb s)) * 0.25
               + related_skills (breakdown (calculate_smart_score rd jb s)) * 0.15
               + breakdown.experience (breakdown (calculate_smart_score rd jb s)) * 0.40
               + breakdown.semantic (breakdown (calculate_smart_score rd jb s)) * 0.20
               + breakdown.projects (breakdown (calculate_smart_score rd jb s))
                 * weights.projects (weights (calculate_smart_score rd jb s))) 1.0
    \<and> final_score (calculate_smart_score (rd\<lparr>resume_data.education := e\<rparr>) jb s)
        = final_score (calculate_smart_score rd jb s)"
proof -
  have z: "snd (edu_levels edu_hierarchy c (lower (get_or (education_required jb) [])) (0, 0)) = 0" for c
    by (rule edu_levels_required_unchanged[OF assms])
  have w: "weights.education (weights (calculate_smart_score rd' jb s)) = 0" for rd'
    unfolding smart_weights_education z by simp
  have same: "final_score (calculate_smart_score (rd\<lparr>resume_data.education := e\<rparr>) jb s)
        = final_score (calculate_smart_score rd jb s)"
    unfolding smart_final_unweighted[OF w] education_update_parts by (rule refl)
  show ?thesis using w[of rd] smart_final_unweighted[OF w[of rd]] same by blast
qed

text \<open>The sample job has an empty \<^verbatim>\<open>education_required\<close> text.\<close>

theorem education_weight_zero_witness:
  "list_all (\<lambda>(key, v). \<not> py_in key (lower (get_or (education_required backend_job) []))) edu_hierarchy
   \<and> weights.education (weights (calculate_smart_score sample_resume backend_job (1 / 2))) = 0
   \<and> final_score (calculate_smart_score
         (sample_resume\<lparr>resume_data.education := Some \<lparr>level = Some ''PhD'', summary = None\<rparr>\<rparr>)
         backend_job (1 / 2))
       = final_score (calculate_smart_score sample_resume backend_job (1 / 2))"
proof -
  have h: "\<forall>(key, v) \<in> set edu_hierarchy. \<not> py_in key (lower (get_or (education_required backend_job) []))"
    by code_simp
  show ?thesis
    using h education_weight_zero[OF h, of sample_resume "1 / 2" "Some \<lparr>level = Some ''PhD'', summary = None\<rparr>"]
    by (simp only: list_all_iff)
qed

subsection \<open>Claim C1: the scores lie in the unit interval\<close>

lemma ratio_in_unit: "0 < d \<Longrightarrow> in_unit (min (real m / max d 1) 1.0)"
  by (simp add: in_unit_def min_def)

lemma smart_exact_in_unit: "in_unit (exact_skills (breakdown (calculate_smart_score rd jb s)))"
  unfolding smart_exact_skills by (rule ratio_in_unit) simp

lemma smart_related_in_unit: "in_unit (related_skills (breakdown (calculate_smart_score rd jb s)))"
  unfolding smart_related_skills by (rule ratio_in_unit) simp

lemma smart_experience_in_unit:
  assumes "0 \<le> get_or (years_of_experience rd) 0"
  shows "in_unit (breakdown.experience (breakdown (calculate_smart_score rd jb s)))"
proof -
  have "0 \<le> get_or (years_of_experience rd) 0 / max (parse_required_years jb) 1"
    using assms by simp
  then show ?thesis
    unfolding smart_experience in_unit_def by (simp add: min_def)
qed

lemma smart_education_in_unit: "in_unit (breakdown.education (breakdown (calculate_smart_score rd jb s)))"
  unfolding smart_education in_unit_def Let_def by simp

lemma smart_projects_in_unit: "in_unit (breakdown.projects (breakdown (calculate_smart_score rd jb s)))"
  unfolding smart_projects in_unit_def by (simp add: min_def)

lemma smart_weights_range:
  "0 \<le> weights.education (weights (calculate_smart_score rd jb s))"
  "0 \<le> weights.projects (weights (calculate_smart_score rd jb s))"
  unfolding smart_weights_education smart_weights_projects by simp_all

lemma smart_final_in_unit:
  assumes "0 \<le> get_or (years_of_experience rd) 0" and "0 \<le> s"
  shows "in_unit (final_score (calculate_smart_score rd jb s))"
proof -
  define r where "r = calculate_smart_score rd jb s"
  have parts: "0 \<le> exact_skills (breakdown r)" "0 \<le> related_skills (breakdown r)"
      "0 \<le> breakdown.experience (breakdown r)" "0 \<le> breakdown.semantic (breakdown r)"
      "0 \<le> breakdown.education (breakdown r)" "0 \<le> breakdown.projects (breakdown r)"
    using smart_exact_in_unit[of rd jb s] smart_related_in_unit[of rd jb s]
      smart_experience_in_unit[OF assms(1), of jb s] smart_education_in_unit[of rd jb s]
      smart_projects_in_unit[of rd jb s] assms(2)
    unfolding r_def in_unit_def smart_semantic by simp_all
  have w: "0 \<le> weights.education (weights r)" "0 \<le> weights.projects (weights r)"
    unfolding r_def by (rule smart_weights_range)+
  have "0 \<le> exact_skills (breakdown r) * 0.25 + related_skills (breakdown r) * 0.15
              + breakdown.experience (breakdown r) * 0.40 + breakdown.semantic (breakdown r) * 0.20
              + (breakdown.education (breakdown r) * weights.education (weights r)
                 + breakdown.projects (breakdown r) * weights.projects (weights r))"
    using parts w by (intro add_nonneg_nonneg mult_nonneg_nonneg) simp_all
  moreover have "final_score r = min (exact_skills (breakdown r) * 0.25 + related_skills (breakdown r) * 0.15
              + breakdown.experience (breakdown r) * 0.40 + breakdown.semantic (breakdown r) * 0.20
              + (breakdown.education (breakdown r) * weights.education (weights r)
                 + breakdown.projects (breakdown r) * weights.projects (weights r))) 1.0"
    unfolding r_def using smart_final[of rd jb s] by (simp only: Let_def)
  ultimately show ?thesis
    unfolding r_def[symmetric] in_unit_def by (simp add: min_def)
qed

text \<open>
  Claim C1, amended. For every profile whose years of experience are not negative, every
  job and every semantic score in \<open>[0, 1]\<close>, each of the six sub-scores that
  \<^verbatim>\<open>calculate_smart_score\<close> returns lies in \<open>[0, 1]\<close>, and so does the final score,
  also when every sub-score is at its maximum and both conditional weights are active.
\<close>

theorem smart_score_bounds:
  assumes "0 \<le> get_or (years_of_experience rd) 0" and "0 \<le> s" and "s \<le> 1"
  shows "in_unit (exact_skills (breakdown (calculate_smart_score rd jb s)))
    \<and> in_unit (related_skills (breakdown (calculate_smart_score rd jb s)))
    \<and> in_unit (breakdown.experience (breakdown (calculate_smart_score rd jb s)))
    \<and> in_unit (breakdown.education (breakdown (calculate_smart_score rd jb s)))
    \<and> in_unit (breakdown.projects (breakdown (calculate_smart_score rd jb s)))
    \<and> in_unit (breakdown.semantic (breakdown (calculate_smart_score rd jb s)))
    \<and> in_unit (final_score (calculate_smart_score rd jb s))"
proof -
  have "in_unit (breakdown.semantic (breakdown (calculate_smart_score rd jb s)))"
    unfolding smart_semantic in_unit_def using assms(2,3) by simp
  then show ?thesis
    using smart_exact_in_unit[of rd jb s] smart_related_in_unit[of rd jb s]
      smart_experience_in_unit[OF assms(1), of jb s] smart_education_in_unit[of rd jb s]
      smart_projects_in_unit[of rd jb s] smart_final_in_unit[OF assms(1,2), of jb]
    by blast
qed

text \<open>
  Every sub-score at its maximum with both conditional weights active: the weighted sum is
  1.1 and the final score is clamped to 1.
\<close>

theorem smart_score_bounds_witness:
  "0 \<le> get_or (years_of_experience strong_resume) 0 \<and> (0::real) \<le> 1 \<and> (1::real) \<le> 1
   \<and> weights.education (weights (calculate_smart_score strong_resume demanding_job 1)) = 0.05
   \<and> weights.projects (weights (calculate_smart_score strong_resume demanding_job 1)) = 0.05
   \<and> breakdown (calculate_smart_score strong_resume demanding_job 1)
       = \<lparr>exact_skills = 1, related_skills = 1, breakdown.experience = 1, breakdown.education = 1,
          breakdown.projects = 1, breakdown.semantic = 1\<rparr>
   \<and> in_unit (final_score (calculate_smart_score strong_resume demanding_job 1))"
proof -
  have h: "0 \<le> get_or (years_of_experience strong_resume) 0"
    by code_simp
  have w: "weights.education (weights (calculate_smart_score strong_resume demanding_job 1)) = 0.05"
    "weights.projects (weights (calculate_smart_score strong_resume demanding_job 1)) = 0.05"
    by code_simp+
  have b: "breakdown (calculate_smart_score strong_resume demanding_job 1)
       = \<lparr>exact_skills = 1, related_skills = 1, breakdown.experience = 1, breakdown.education = 1,
          breakdown.projects = 1, breakdown.semantic = 1\<rparr>"
    by code_simp
  show ?thesis
    using h w b smart_score_bounds[OF h, of 1 demanding_job] by simp
qed

text \<open>
  The claim as stated, for every profile and every semantic score, fails. The semantic
  score is passed through unchanged, so a score of 1.5 gives a semantic sub-score of 1.5;
  and a profile with \<open>-5\<close> years against three required years has experience sub-score
  \<open>-5/3\<close> and, the final score having no lower clamp, a final score below 0.
\<close>

theorem smart_score_bounds_counterexample:
  "\<not> in_unit (breakdown.semantic (breakdown (calculate_smart_score sample_resume backend_job (3 / 2))))
   \<and> \<not> in_unit (breakdown.experience (breakdown
         (calculate_smart_score (sample_resume\<lparr>years_of_experience := Some (- 5)\<rparr>) backend_job (1 / 2))))
   \<and> \<not> in_unit (final_score
         (calculate_smart_score (sample_resume\<lparr>years_of_experience := Some (- 5)\<rparr>) backend_job (1 / 2)))"
  by code_simp

section \<open>The vector index and the match pipeline\<close>

subsection \<open>Claim C7: the index that is not ready\<close>

lemma collect_results_error:
  "collect_results js hits = Inl e \<Longrightarrow> e = IndexError"
proof (induction hits)
  case Nil
  then show ?case by simp
next
  case (Cons h hits)
  obtain idx dist where h: "h = (idx, dist)" by (cases h)
  show ?case using Cons unfolding h
    by (auto simp: job_at_def Let_def split: if_splits sum.splits)
qed

lemma job_at_in_range:
  "- int (length js) \<le> idx \<Longrightarrow> idx < int (length js) \<Longrightarrow> \<exists>jb. job_at js idx = Inr jb"
  by (auto simp: job_at_def Let_def)

lemma collect_results_total:
  "\<forall>(idx, dist) \<in> set hits. - int (length js) \<le> idx \<Longrightarrow> \<exists>results. collect_results js hits = Inr results"
proof (induction hits)
  case Nil
  then show ?case by simp
next
  case (Cons h hits)
  obtain idx dist where h: "h = (idx, dist)" by (cases h)
  have lo: "- int (length js) \<le> idx" using Cons.prems h by simp
  obtain rs where rs: "collect_results js hits = Inr rs" using Cons by auto
  show ?case
  proof (cases "idx < int (length js)")
    case True
    then obtain jb where "job_at js idx = Inr jb" using job_at_in_range[OF lo] by blast
    then show ?thesis unfolding h using True rs by simp
  next
    case False
    then show ?thesis unfolding h using rs by simp
  qed
qed

text \<open>
  Claim C7. \<^verbatim>\<open>find_matching_jobs\<close> fails with the error "Index not built" exactly
  when the index is unbuilt or the stored job list is empty; in every other case it raises
  no \<^verbatim>\<open>ValueError\<close> at all, and it returns a result list whenever the index search
  gives positions of the index or \<open>-1\<close>, as FAISS does.
\<close>

theorem find_matching_jobs_not_ready:
  "(find_matching_jobs encode faiss_search m pr top_k
      = Inl (ValueError ''Index not built. Call build_job_index() first.''))
     = (index m = None \<or> length (jobs m) = 0)
   \<and> (\<forall>e. find_matching_jobs encode faiss_search m pr top_k = Inl (ValueError e)
        \<longrightarrow> index m = None \<or> length (jobs m) = 0)
   \<and> (index m \<noteq> None \<and> length (jobs m) \<noteq> 0
        \<and> (\<forall>(idx, dist) \<in> set (faiss_search (the (index m)) (create_profile_embedding encode pr)
                                    (min top_k (int (length (jobs m))))). - 1 \<le> idx)
        \<longrightarrow> (\<exists>results. find_matching_jobs encode faiss_search m pr top_k = Inr results))"
proof (intro conjI allI impI)
  show "(find_matching_jobs encode faiss_search m pr top_k
      = Inl (ValueError ''Index not built. Call build_job_index() first.''))
     = (index m = None \<or> length (jobs m) = 0)"
    by (auto simp: find_matching_jobs_def Let_def dest: collect_results_error)
next
  fix e
  assume "find_matching_jobs encode faiss_search m pr top_k = Inl (ValueError e)"
  then show "index m = None \<or> length (jobs m) = 0"
    by (auto simp: find_matching_jobs_def Let_def dest: collect_results_error split: if_splits)
next
  assume a: "index m \<noteq> None \<and> length (jobs m) \<noteq> 0
        \<and> (\<forall>(idx, dist) \<in> set (faiss_search (the (index m)) (create_profile_embedding encode pr)
                                    (min top_k (int (length (jobs m))))). - 1 \<le> idx)"
  let ?hits = "faiss_search (the (index m)) (create_profile_embedding encode pr)
                 (min top_k (int (length (jobs m))))"
  have "\<forall>(idx, dist) \<in> set ?hits. - int (length (jobs m)) \<le> idx"
  proof (clarify)
    fix idx dist
    assume "(idx, dist) \<in> set ?hits"
    then have "- 1 \<le> idx" using a by blast
    moreover have "1 \<le> int (length (jobs m))" using a by (cases "jobs m") simp_all
    ultimately show "- int (length (jobs m)) \<le> idx" by linarith
  qed
  from collect_results_total[OF this] a
  show "\<exists>results. find_matching_jobs encode faiss_search m pr top_k = Inr results"
    by (simp add: find_matching_jobs_def Let_def)
qed

text \<open>
  An unbuilt matcher, a matcher that has an index and no jobs, and the matcher built from
  the sample catalog.
\<close>

lemma sample_matcher_built:
  "index (built_matcher sample_encode 768 sample_catalog) \<noteq> None
   \<and> length (jobs (built_matcher sample_encode 768 sample_catalog)) \<noteq> 0"
  by code_simp

lemma sample_search_contract: "\<forall>(idx, dist) \<in> set (sample_search vs q k). - 1 \<le> idx"
  by (simp add: sample_search_def)

theorem find_matching_jobs_not_ready_witness:
  "find_matching_jobs sample_encode sample_search (new_job_matcher 768) (pipeline_profile sample_session) 2
     = Inl (ValueError ''Index not built. Call build_job_index() first.'')
   \<and> find_matching_jobs sample_encode sample_search ((new_job_matcher 768)\<lparr>index := Some []\<rparr>)
         (pipeline_profile sample_session) 2
     = Inl (ValueError ''Index not built. Call build_job_index() first.'')
   \<and> (\<exists>results. find_matching_jobs sample_encode sample_search
          (built_matcher sample_encode 768 sample_catalog) (pipeline_profile sample_session) 2
        = Inr results)
   \<and> map (\<lambda>(jb, sim). (job_id jb, sim))
        (projr (find_matching_jobs sample_encode sample_search
          (built_matcher sample_encode 768 sample_catalog) (pipeline_profile sample_session) 2))
      = [(2, 1 / 4), (3, 1 / 4)]"
proof -
  have unbuilt: "index (new_job_matcher 768) = None \<or> length (jobs (new_job_matcher 768)) = 0"
    by code_simp
  have empty: "index ((new_job_matcher 768)\<lparr>index := Some []\<rparr>) = None
      \<or> length (jobs ((new_job_matcher 768)\<lparr>index := Some []\<rparr>)) = 0"
    by code_simp
  have vals: "map (\<lambda>(jb, sim). (job_id jb, sim))
        (projr (find_matching_jobs sample_encode sample_search
          (built_matcher sample_encode 768 sample_catalog) (pipeline_profile sample_session) 2))
      = [(2, 1 / 4), (3, 1 / 4)]"
    by code_simp
  note inst = find_matching_jobs_not_ready[of sample_encode sample_search _ "pipeline_profile sample_session" 2]
  have a: "find_matching_jobs sample_encode sample_search (new_job_matcher 768) (pipeline_profile sample_session) 2
     = Inl (ValueError ''Index not built. Call build_job_index() first.'')"
    using inst[of "new_job_matcher 768"] unbuilt by blast
  have b: "find_matching_jobs sample_encode sample_search ((new_job_matcher 768)\<lparr>index := Some []\<rparr>)
         (pipeline_profile sample_session) 2
     = Inl (ValueError ''Index not built. Call build_job_index() first.'')"
    using inst[of "(new_job_matcher 768)\<lparr>index := Some []\<rparr>"] empty by blast
  have c: "\<exists>results. find_matching_jobs sample_encode sample_search
          (built_matcher sample_encode 768 sample_catalog) (pipeline_profile sample_session) 2
        = Inr results"
    using inst[of "built_matcher sample_encode 768 sample_catalog"] sample_matcher_built
      sample_search_contract by blast
  show ?thesis using a b c vals by blast
qed

subsection \<open>Claim C4: the match pipeline\<close>

lemma score_job_parts:
  "fst (score_job st ml jb) = jb"
  "fst (snd (score_job st ml jb))
     = final_score (calculate_smart_score (parsed_resume_data st) jb (lookup_semantic ml jb))"
  "smart_score (snd (snd (score_job st ml jb)))
     = calculate_smart_score (parsed_resume_data st) jb (lookup_semantic ml jb)"
  "overall (snd (snd (score_job st ml jb)))
     = final_score (calculate_smart_score (parsed_resume_data st) jb (lookup_semantic ml jb))"
  unfolding score_job_def Let_def
  by (simp_all add: detailed_breakdown.extend_def match_breakdown.fields_def)

lemma starts_with_iff: "starts_with h n \<longleftrightarrow> (\<exists>q. h = n @ q)"
  by (induction h n rule: starts_with.induct) auto

lemma py_in_iff: "py_in n h \<longleftrightarrow> (\<exists>p q. h = p @ n @ q)"
proof (induction h)
  case Nil
  show ?case by simp
next
  case (Cons c cs)
  show ?case
  proof
    assume "py_in n (c # cs)"
    then consider "starts_with (c # cs) n" | "py_in n cs" by auto
    then show "\<exists>p q. c # cs = p @ n @ q"
    proof cases
      case 1
      then obtain q where "c # cs = n @ q" using starts_with_iff by blast
      then have "c # cs = [] @ n @ q" by simp
      then show ?thesis by blast
    next
      case 2
      then obtain p q where "cs = p @ n @ q" using Cons.IH by blast
      then have "c # cs = (c # p) @ n @ q" by simp
      then show ?thesis by blast
    qed
  next
    assume "\<exists>p q. c # cs = p @ n @ q"
    then obtain p q where pq: "c # cs = p @ n @ q" by blast
    show "py_in n (c # cs)"
    proof (cases p)
      case Nil
      then have "starts_with (c # cs) n" using pq starts_with_iff by auto
      then show ?thesis by simp
    next
      case (Cons x p')
      then have "cs = p' @ n @ q" using pq by simp
      then have "py_in n cs" using Cons.IH by blast
      then show ?thesis by simp
    qed
  qed
qed

lemma role_matches_iff:
  "role_matches roles jb
     \<longleftrightarrow> (\<exists>role \<in> set roles. \<exists>p q. lower (job.title jb) = p @ lower role @ q)"
  by (simp add: role_matches_def list_ex_iff py_in_iff)

lemma lookup_semantic_default:
  "job_id jb \<notin> job_id ` fst ` set ml \<Longrightarrow> lookup_semantic ml jb = 0.5"
  by (induction ml jb rule: lookup_semantic.induct) auto

lemma score_jobs_Inr:
  assumes "find_matching_jobs encode faiss_search m (pipeline_profile st) k = Inr ml"
  shows "score_jobs encode faiss_search m st k fj = Inr (map (score_job st ml) fj)"
  by (induction fj) (simp_all add: assms)

lemma built_matcher_fields:
  "index (built_matcher encode d js) = Some (map (create_job_embedding encode) js)"
  "jobs (built_matcher encode d js) = js"
  by (simp_all add: built_matcher_def)

lemma initialize_matcher_built:
  "js \<noteq> [] \<Longrightarrow> initialize_matcher encode d js = Inr (built_matcher encode d js)"
  by (simp add: initialize_matcher_def build_job_index_def new_job_matcher_def built_matcher_def Let_def)

lemma initialize_matcher_empty:
  "initialize_matcher encode d [] = Inl (ValueError ''not enough values to unpack (expected 2, got 1)'')"
  by (simp add: initialize_matcher_def build_job_index_def Let_def)

lemma sort_desc_sorted:
  "sorted_wrt (\<lambda>a b. fst (snd a) \<ge> fst (snd b))
     (sort_key (\<lambda>(jb, final_score, bd). - final_score) (xs :: match list))"
proof -
  have "sorted (map (\<lambda>(jb, final_score, bd). - final_score)
                 (sort_key (\<lambda>(jb, final_score, bd). - final_score) xs))"
    by (rule sorted_sort_key)
  then have "sorted_wrt (\<lambda>a b. (case a of (jb, f, bd) \<Rightarrow> - f) \<le> (case b of (jb, f, bd) \<Rightarrow> - f))
                 (sort_key (\<lambda>(jb, final_score, bd). - final_score) xs)"
    by (simp add: sorted_wrt_map)
  then show ?thesis
    by (rule sorted_wrt_mono_rel[rotated]) (auto simp: case_prod_beta)
qed

lemma find_matching_jobs_fresh:
  assumes "js \<noteq> []"
    and "\<forall>q k. \<forall>(idx, dist) \<in> set (faiss_search (map (create_job_embedding encode) js) q k). - 1 \<le> idx"
  shows "\<exists>ml. find_matching_jobs encode faiss_search (built_matcher encode d js) pr k = Inr ml"
proof -
  let ?m = "built_matcher encode d js"
  let ?hits = "faiss_search (map (create_job_embedding encode) js) (create_profile_embedding encode pr)
                 (min k (int (length js)))"
  have one: "1 \<le> int (length js)" using assms(1) by (cases js) simp_all
  have "\<forall>(idx, dist) \<in> set ?hits. - int (length js) \<le> idx"
  proof (clarify)
    fix idx dist
    assume "(idx, dist) \<in> set ?hits"
    then have "- 1 \<le> idx" using assms(2) by blast
    then show "- int (length js) \<le> idx" using one by linarith
  qed
  from collect_results_total[OF this] assms(1)
  show ?thesis
    by (simp add: find_matching_jobs_def Let_def built_matcher_fields)
qed

lemma show_job_results_empty:
  assumes "filter (role_matches (selected_roles st)) js = []"
    and "js \<noteq> [] \<or> job_matcher st \<noteq> None"
  shows "show_job_results encode faiss_search d js st = Inr []"
proof (cases "job_matcher st")
  case None
  then have "js \<noteq> []" using assms(2) by simp
  then show ?thesis
    using None assms(1) by (simp add: show_job_results_def Let_def initialize_matcher_built)
next
  case (Some m)
  then show ?thesis
    using assms(1) by (simp add: show_job_results_def Let_def)
qed

lemma show_job_results_scored:
  assumes "filter (role_matches (selected_roles st)) js \<noteq> []"
    and "job_matcher st = None \<or> job_matcher st = Some (built_matcher encode d js)"
    and "find_matching_jobs encode faiss_search (built_matcher encode d js) (pipeline_profile st)
           (int (length (filter (role_matches (selected_roles st)) js))) = Inr ml"
  shows "show_job_results encode faiss_search d js st
         = Inr (sort_key (\<lambda>(jb, final_score, bd). - final_score)
                  (map (score_job st ml) (filter (role_matches (selected_roles st)) js)))"
proof -
  have "js \<noteq> []" using assms(1) by auto
  then have m: "(case job_matcher st of None \<Rightarrow> initialize_matcher encode d js | Some m \<Rightarrow> Inr m)
           = Inr (built_matcher encode d js)"
    using assms(2) by (auto simp: initialize_matcher_built)
  show ?thesis
    unfolding show_job_results_def m
    using assms(1) by (simp add: Let_def score_jobs_Inr[OF assms(3)])
qed

text \<open>
  What the pipeline does when the matcher can be had: the catalog is not empty, or the
  session holds a matcher already. When no job title contains a selected role as a
  case-insensitive substring, it returns the empty list and no error. With a fresh session
  and a catalog that is not empty, or with the matcher built from the catalog kept in the
  session, and with an index search that gives positions of the index or \<open>-1\<close>, it
  returns a list of matches whose jobs are exactly the jobs whose title contains some
  selected role as a case-insensitive substring, in descending order of the final score;
  each match carries the final score of \<^verbatim>\<open>calculate_smart_score\<close> for its job, and
  its semantic score is 0.5 when the job's id is absent from the top-\<open>k\<close> results of
  the index search.
\<close>

lemma show_job_results_ranked:
  "(filter (\<lambda>jb. \<exists>role \<in> set (selected_roles st). \<exists>p q. lower (job.title jb) = p @ lower role @ q) js = []
      \<and> (js \<noteq> [] \<or> job_matcher st \<noteq> None)
      \<longrightarrow> show_job_results encode faiss_search d js st = Inr [])
   \<and> (((job_matcher st = None \<and> js \<noteq> []) \<or> job_matcher st = Some (built_matcher encode d js))
        \<and> (\<forall>q k. \<forall>(idx, dist) \<in> set (faiss_search (map (create_job_embedding encode) js) q k). - 1 \<le> idx)
      \<longrightarrow> (\<exists>matches. show_job_results encode faiss_search d js st = Inr matches
            \<and> mset (map fst matches)
                = mset (filter (\<lambda>jb. \<exists>role \<in> set (selected_roles st).
                                   \<exists>p q. lower (job.title jb) = p @ lower role @ q) js)
            \<and> sorted_wrt (\<lambda>a b. fst (snd a) \<ge> fst (snd b)) matches
            \<and> (\<forall>(jb, final, bd) \<in> set matches.
                  final = final_score (smart_score bd)
                  \<and> smart_score bd = calculate_smart_score (parsed_resume_data st) jb
                                       (breakdown.semantic (breakdown (smart_score bd)))
                  \<and> (\<forall>ml. find_matching_jobs encode faiss_search (built_matcher encode d js)
                             (pipeline_profile st) (int (length matches)) = Inr ml
                           \<and> job_id jb \<notin> job_id ` fst ` set ml
                        \<longrightarrow> breakdown.semantic (breakdown (smart_score bd)) = 0.5))))"
proof -
  let ?F = "filter (role_matches (selected_roles st)) js"
  have F: "filter (\<lambda>jb. \<exists>role \<in> set (selected_roles st). \<exists>p q. lower (job.title jb) = p @ lower role @ q) js = ?F"
    by (rule filter_cong) (simp_all add: role_matches_iff)
  have first: "?F = [] \<and> (js \<noteq> [] \<or> job_matcher st \<noteq> None)
      \<longrightarrow> show_job_results encode faiss_search d js st = Inr []"
    using show_job_results_empty by blast
  have second: "\<exists>matches. show_job_results encode faiss_search d js st = Inr matches
            \<and> mset (map fst matches) = mset ?F
            \<and> sorted_wrt (\<lambda>a b. fst (snd a) \<ge> fst (snd b)) matches
            \<and> (\<forall>(jb, final, bd) \<in> set matches.
                  final = final_score (smart_score bd)
                  \<and> smart_score bd = calculate_smart_score (parsed_resume_data st) jb
                                       (breakdown.semantic (breakdown (smart_score bd)))
                  \<and> (\<forall>ml. find_matching_jobs encode faiss_search (built_matcher encode d js)
                             (pipeline_profile st) (int (length matches)) = Inr ml
                           \<and> job_id jb \<notin> job_id ` fst ` set ml
                        \<longrightarrow> breakdown.semantic (breakdown (smart_score bd)) = 0.5))"
    if matcher: "(job_matcher st = None \<and> js \<noteq> []) \<or> job_matcher st = Some (built_matcher encode d js)"
      and faiss: "\<forall>q k. \<forall>(idx, dist) \<in> set (faiss_search (map (create_job_embedding encode) js) q k). - 1 \<le> idx"
  proof (cases "?F = []")
    case True
    moreover have "js \<noteq> [] \<or> job_matcher st \<noteq> None"
      using matcher by auto
    ultimately have "show_job_results encode faiss_search d js st = Inr []"
      by (rule show_job_results_empty)
    then show ?thesis using True by simp
  next
    case False
    then have "js \<noteq> []" by auto
    from find_matching_jobs_fresh[of js faiss_search encode, OF this faiss]
    obtain ml where ml: "find_matching_jobs encode faiss_search (built_matcher encode d js)
        (pipeline_profile st) (int (length ?F)) = Inr ml"
      by blast
    define matches where "matches = sort_key (\<lambda>(jb, final_score, bd). - final_score)
                  (map (score_job st ml) ?F)"
    have matcher': "job_matcher st = None \<or> job_matcher st = Some (built_matcher encode d js)"
      using matcher by auto
    have res: "show_job_results encode faiss_search d js st = Inr matches"
      unfolding matches_def by (rule show_job_results_scored[OF False matcher' ml])
    have perm: "mset (map fst matches) = mset ?F"
    proof -
      have "mset matches = mset (map (score_job st ml) ?F)"
        unfolding matches_def by (simp only: mset_sort)
      then have "image_mset fst (mset matches) = image_mset fst (mset (map (score_job st ml) ?F))"
        by (rule arg_cong)
      then have "mset (map fst matches) = mset (map fst (map (score_job st ml) ?F))"
        by (simp only: mset_map)
      also have "map fst (map (score_job st ml) ?F) = ?F"
        by (simp add: score_job_parts o_def)
      finally show ?thesis .
    qed
    have len: "length matches = length ?F"
      unfolding matches_def by simp
    have srt: "sorted_wrt (\<lambda>a b. fst (snd a) \<ge> fst (snd b)) matches"
      unfolding matches_def by (rule sort_desc_sorted)
    have each: "\<forall>(jb, final, bd) \<in> set matches.
                  final = final_score (smart_score bd)
                  \<and> smart_score bd = calculate_smart_score (parsed_resume_data st) jb
                                       (breakdown.semantic (breakdown (smart_score bd)))
                  \<and> (\<forall>ml'. find_matching_jobs encode faiss_search (built_matcher encode d js)
                             (pipeline_profile st) (int (length matches)) = Inr ml'
                           \<and> job_id jb \<notin> job_id ` fst ` set ml'
                        \<longrightarrow> breakdown.semantic (breakdown (smart_score bd)) = 0.5)"
    proof (clarify, intro conjI allI impI)
      fix jb final bd
      assume "(jb, final, bd) \<in> set matches"
      then have "(jb, final, bd) \<in> set (map (score_job st ml) ?F)"
        unfolding matches_def by simp
      then obtain jb' where eq: "(jb, final, bd) = score_job st ml jb'" by auto
      have jb: "jb = jb'" using score_job_parts(1)[of st ml jb'] eq[symmetric] by simp
      have fin: "final = final_score (calculate_smart_score (parsed_resume_data st) jb (lookup_semantic ml jb))"
        using score_job_parts(2)[of st ml jb'] eq[symmetric] jb by simp
      have sm: "smart_score bd = calculate_smart_score (parsed_resume_data st) jb (lookup_semantic ml jb)"
        using score_job_parts(3)[of st ml jb'] eq[symmetric] jb by simp
      have sem: "breakdown.semantic (breakdown (smart_score bd)) = lookup_semantic ml jb"
        unfolding sm by (rule smart_semantic)
      show "final = final_score (smart_score bd)" using fin sm by simp
      show "smart_score bd = calculate_smart_score (parsed_resume_data st) jb
                                       (breakdown.semantic (breakdown (smart_score bd)))"
        unfolding sem by (rule sm)
      fix ml'
      assume a: "find_matching_jobs encode faiss_search (built_matcher encode d js)
                             (pipeline_profile st) (int (length matches)) = Inr ml'
                           \<and> job_id jb \<notin> job_id ` fst ` set ml'"
      then have "ml' = ml" using ml len by simp
      then show "breakdown.semantic (breakdown (smart_score bd)) = 0.5"
        using a sem lookup_semantic_default by simp
    qed
    show ?thesis using res perm srt each by blast
  qed
  show ?thesis
    unfolding F using first second by blast
qed

text \<open>
  The sample session keeps two of the three jobs; the top two positions of the index search
  hold jobs 2 and 3, so job 1 gets the default 0.5. A role that no title contains gives the
  empty list.
\<close>

lemma show_job_results_sample:
  "(\<exists>matches. show_job_results sample_encode sample_search 768 sample_catalog sample_session = Inr matches
       \<and> mset (map fst matches)
           = mset (filter (\<lambda>jb. \<exists>role \<in> set (selected_roles sample_session).
                              \<exists>p q. lower (job.title jb) = p @ lower role @ q) sample_catalog)
       \<and> sorted_wrt (\<lambda>a b. fst (snd a) \<ge> fst (snd b)) matches)
   \<and> map (\<lambda>(jb, final, bd). (job_id jb, final, breakdown.semantic (breakdown (smart_score bd))))
        (projr (show_job_results sample_encode sample_search 768 sample_catalog sample_session))
      = [(1, 9 / 10, 1 / 2), (2, 31 / 100, 1 / 4)]
   \<and> show_job_results sample_encode sample_search 768 sample_catalog
         (sample_session\<lparr>selected_roles := [''Cloud Engineer'']\<rparr>) = Inr []"
proof -
  have fresh: "(job_matcher sample_session = None \<and> sample_catalog \<noteq> [])
      \<or> job_matcher sample_session = Some (built_matcher sample_encode 768 sample_catalog)"
    by (simp add: sample_session_def sample_catalog_def)
  have contract: "\<forall>q k. \<forall>(idx, dist) \<in> set (sample_search (map (create_job_embedding sample_encode) sample_catalog) q k).
      - 1 \<le> idx"
    using sample_search_contract by blast
  have vals: "map (\<lambda>(jb, final, bd). (job_id jb, final, breakdown.semantic (breakdown (smart_score bd))))
        (projr (show_job_results sample_encode sample_search 768 sample_catalog sample_session))
      = [(1, 9 / 10, 1 / 2), (2, 31 / 100, 1 / 4)]"
    by code_simp
  have none: "filter (role_matches (selected_roles (sample_session\<lparr>selected_roles := [''Cloud Engineer'']\<rparr>)))
                sample_catalog = []"
    by code_simp
  have nonempty: "sample_catalog \<noteq> []"
    by (simp add: sample_catalog_def)
  have none': "filter (\<lambda>jb. \<exists>role \<in> set (selected_roles (sample_session\<lparr>selected_roles := [''Cloud Engineer'']\<rparr>)).
                              \<exists>p q. lower (job.title jb) = p @ lower role @ q) sample_catalog = []"
    using none by (simp only: role_matches_iff[symmetric])
  have a: "\<exists>matches. show_job_results sample_encode sample_search 768 sample_catalog sample_session = Inr matches
       \<and> mset (map fst matches)
           = mset (filter (\<lambda>jb. \<exists>role \<in> set (selected_roles sample_session).
                              \<exists>p q. lower (job.title jb) = p @ lower role @ q) sample_catalog)
       \<and> sorted_wrt (\<lambda>a b. fst (snd a) \<ge> fst (snd b)) matches"
    using show_job_results_ranked[of sample_session sample_catalog sample_encode sample_search 768]
      fresh contract by blast
  have b: "show_job_results sample_encode sample_search 768 sample_catalog
         (sample_session\<lparr>selected_roles := [''Cloud Engineer'']\<rparr>) = Inr []"
    using show_job_results_ranked[of "sample_session\<lparr>selected_roles := [''Cloud Engineer'']\<rparr>"
        sample_catalog sample_encode sample_search 768] none' nonempty
    by blast
  show ?thesis using a vals b by blast
qed

text \<open>
  Claim C4 says that the pipeline returns an empty result, and not an error, when no job
  passes the role filter. No job of an empty catalog passes it. But with an empty catalog
  and a session that has no matcher yet, \<^verbatim>\<open>show_job_results\<close> calls
  \<^verbatim>\<open>initialize_matcher\<close> before it filters, and \<^verbatim>\<open>build_job_index\<close> raises a
  \<^verbatim>\<open>ValueError\<close> on the empty list of embeddings: the warning and the early
  \<^verbatim>\<open>return\<close> for an empty filter result are never reached. With a matcher in the
  session the same call returns the empty list. The last conjunct is the sample session
  with the empty catalog.
\<close>

theorem show_job_results_empty_catalog:
  "show_job_results encode faiss_search d [] (st\<lparr>job_matcher := None\<rparr>)
     = Inl (ValueError ''not enough values to unpack (expected 2, got 1)'')
   \<and> show_job_results encode faiss_search d [] (st\<lparr>job_matcher := Some m\<rparr>) = Inr []
   \<and> show_job_results sample_encode sample_search 768 [] sample_session
     = Inl (ValueError ''not enough values to unpack (expected 2, got 1)'')"
proof (intro conjI)
  show "show_job_results encode faiss_search d [] (st\<lparr>job_matcher := None\<rparr>)
     = Inl (ValueError ''not enough values to unpack (expected 2, got 1)'')"
    by (simp add: show_job_results_def initialize_matcher_empty)
  show "show_job_results encode faiss_search d [] (st\<lparr>job_matcher := Some m\<rparr>) = Inr []"
    by (simp add: show_job_results_def)
  show "show_job_results sample_encode sample_search 768 [] sample_session
     = Inl (ValueError ''not enough values to unpack (expected 2, got 1)'')"
    by (simp add: show_job_results_def initialize_matcher_empty sample_session_def)
qed

section \<open>Extraction\<close>

subsection \<open>The skills\<close>

text \<open>
  The result of \<^verbatim>\<open>extract_skills\<close> has no two entries that are equal up to
  lowercasing, and it is a subsequence of the vocabulary, so it keeps the vocabulary's
  order and casing.
\<close>

lemma unique_skills_fresh: "x \<in> set (unique_skills seen xs) \<Longrightarrow> lower x \<notin> seen"
  by (induction seen xs rule: unique_skills.induct) (auto split: if_splits)

lemma unique_skills_distinct: "distinct (map lower (unique_skills seen xs))"
  by (induction seen xs rule: unique_skills.induct) (auto dest: unique_skills_fresh)

lemma unique_skills_subseq: "subseq (unique_skills seen xs) xs"
  by (induction seen xs rule: unique_skills.induct) auto

lemma extract_skills_no_case_duplicates: "distinct (map lower (extract_skills t))"
  by (simp add: extract_skills_def Let_def unique_skills_distinct)

lemma extract_skills_vocabulary_order: "subseq (extract_skills t) skill_keywords"
proof -
  have "subseq (extract_skills t)
          (filter (\<lambda>skill. search False (skill_pattern skill) (lower t)) skill_keywords)"
    by (simp add: extract_skills_def Let_def unique_skills_subseq)
  then show ?thesis
    by (rule subseq_order.trans) simp
qed

text \<open>
  For a term that begins and ends with a word character, the pattern
  \<^verbatim>\<open>\b\<close> term \<^verbatim>\<open>\b\<close> finds exactly the whole-word occurrences.
\<close>

lemma starts_with_Cons:
  "starts_with a (c # cs) = (case a of [] \<Rightarrow> False | x # xs \<Rightarrow> x = c \<and> starts_with xs cs)"
  by (cases a) simp_all

lemma rmatch_literal:
  "s \<noteq> [] \<Longrightarrow> rmatch False (literal s) (b, a, g)
     = (if starts_with a s then [(rev s @ b, drop (length s) a, g)] else [])"
proof (induction s arbitrary: a b)
  case Nil
  then show ?case by simp
next
  case (Cons c cs)
  show ?case
  proof (cases cs)
    case Nil
    then show ?thesis
      by (cases a) (simp_all add: literal_def)
  next
    case (Cons c' cs')
    have lit: "literal (c # cs) = Cat (Lit c) (literal cs)"
      unfolding Cons by (simp add: literal_def)
    have ih: "rmatch False (literal cs) (b', a', g)
     = (if starts_with a' cs then [(rev cs @ b', drop (length cs) a', g)] else [])" for a' b'
      using Cons.IH Cons by simp
    show ?thesis
      unfolding lit by (cases a) (simp_all add: ih)
  qed
qed

lemma rmatch_skill:
  assumes "s \<noteq> []" "is_word (hd s)" "is_word (last s)"
  shows "rmatch False (seq [WordB, literal s, WordB]) (b, a, []) \<noteq> [] \<longleftrightarrow> whole_word_at s b a"
proof (cases "starts_with a s")
  case False
  then show ?thesis using assms(1) by (simp add: rmatch_literal)
next
  case True
  obtain c cs where s: "s = c # cs" using assms(1) by (cases s) auto
  obtain xs where a: "a = c # xs" using True s by (cases a) auto
  have hd_a: "is_word c" using assms(2) s by simp
  have first: "at_boundary b a \<longleftrightarrow> (case b of [] \<Rightarrow> True | x # _ \<Rightarrow> \<not> is_word x)"
    using hd_a unfolding a at_boundary_def by (cases b) simp_all
  obtain l ls where r: "rev s @ b = l # ls" "is_word l"
    using assms(1,3) by (cases "rev s") (auto simp: last_rev[symmetric] hd_rev)
  have second: "at_boundary (rev s @ b) (drop (length s) a)
      \<longleftrightarrow> (case drop (length s) a of [] \<Rightarrow> True | y # _ \<Rightarrow> \<not> is_word y)"
    unfolding r(1) at_boundary_def using r(2) by (cases "drop (length s) a") simp_all
  show ?thesis
    using True first second assms(1) by (simp add: rmatch_literal)
qed

lemma search_skill:
  assumes "s \<noteq> []" "is_word (hd s)" "is_word (last s)"
  shows "search_from False (seq [WordB, literal s, WordB]) b a \<longleftrightarrow> whole_word_from s b a"
proof (induction a arbitrary: b)
  case Nil
  show ?case using rmatch_skill[OF assms, of b "[]"] by simp
next
  case (Cons c cs)
  show ?case using rmatch_skill[OF assms, of b "c # cs"] Cons.IH by simp
qed

lemma skill_keywords_distinct_lower: "distinct (map lower skill_keywords)"
  by code_simp

lemma unique_skills_id:
  "distinct (map lower xs) \<Longrightarrow> \<forall>x \<in> set xs. lower x \<notin> seen \<Longrightarrow> unique_skills seen xs = xs"
proof (induction xs arbitrary: seen)
  case Nil
  show ?case by simp
next
  case (Cons x xs)
  have fresh: "lower x \<notin> seen" using Cons.prems(2) by simp
  have d: "distinct (map lower xs)" using Cons.prems(1) by simp
  have "\<forall>y \<in> set xs. lower y \<notin> insert (lower x) seen"
  proof
    fix y
    assume y: "y \<in> set xs"
    then have "lower y \<in> lower ` set xs" by (rule imageI)
    moreover have "lower x \<notin> lower ` set xs" using Cons.prems(1) by simp
    ultimately have "lower y \<noteq> lower x" by auto
    moreover have "lower y \<notin> seen" using Cons.prems(2) y by simp
    ultimately show "lower y \<notin> insert (lower x) seen" by simp
  qed
  from Cons.IH[OF d this] fresh show ?case by simp
qed

lemma extract_skills_filter:
  "extract_skills t = filter (\<lambda>skill. search False (skill_pattern skill) (lower t)) skill_keywords"
proof -
  have "distinct (map lower (filter (\<lambda>skill. search False (skill_pattern skill) (lower t)) skill_keywords))"
    using skill_keywords_distinct_lower by (rule distinct_map_filter)
  then show ?thesis
    by (simp add: extract_skills_def Let_def unique_skills_id)
qed

lemma skill_keywords_shape:
  "\<forall>skill \<in> set skill_keywords.
     skill = ''C++'' \<or> skill = ''C#''
     \<or> (lower skill \<noteq> [] \<and> is_word (hd (lower skill)) \<and> is_word (last (lower skill)))"
  by code_simp

lemma extract_skills_whole_word:
  assumes "skill \<in> set skill_keywords" "skill \<noteq> ''C++''" "skill \<noteq> ''C#''"
  shows "skill \<in> set (extract_skills t) \<longleftrightarrow> spec_whole_word skill t"
proof -
  have shape: "lower skill \<noteq> []" "is_word (hd (lower skill))" "is_word (last (lower skill))"
    using skill_keywords_shape assms by blast+
  have "search False (skill_pattern skill) (lower t) \<longleftrightarrow> spec_whole_word skill t"
    unfolding search_def skill_pattern_def spec_whole_word_def
    by (rule search_skill[OF shape])
  then show ?thesis
    using assms(1) by (simp add: extract_skills_filter)
qed

subsection \<open>Claim C9: whole-word matching of the vocabulary\<close>

text \<open>
  Claim C9 says that a text containing a vocabulary skill as a whole word yields that
  skill. It holds for every skill of the vocabulary but two (lemma
  \<open>extract_skills_whole_word\<close>). The two are \<^verbatim>\<open>C++\<close> and \<^verbatim>\<open>C#\<close>, which end in
  a character that is not a word character: after it, \<^verbatim>\<open>\b\<close> asks for a word
  character to follow. So a text with \<^verbatim>\<open>C++\<close> or \<^verbatim>\<open>C#\<close> between spaces yields
  \<^verbatim>\<open>C\<close> and not the skill itself.
\<close>

theorem extract_skills_misses_cpp:
  "''C++'' \<in> set skill_keywords
   \<and> spec_whole_word ''C++'' ''Experienced in C++ and Java''
   \<and> extract_skills ''Experienced in C++ and Java'' = [''Java'', ''C'']
   \<and> ''C#'' \<in> set skill_keywords
   \<and> spec_whole_word ''C#'' ''Senior C# developer''
   \<and> extract_skills ''Senior C# developer'' = [''C'']"
  by code_simp

subsection \<open>The years of experience\<close>

text \<open>
  With no match of any pattern the result is 2.0; otherwise it is the maximum of the values
  found.
\<close>

lemma py_max_Max: "xs \<noteq> [] \<Longrightarrow> py_max xs = Max (set xs)"
proof (cases xs)
  case Nil
  assume "xs \<noteq> []"
  with Nil show ?thesis by simp
next
  case (Cons x rest)
  show ?thesis
    unfolding Cons py_max.simps by (rule Max.set_eq_fold[symmetric])
qed

lemma extract_years_default:
  assumes "\<forall>pattern \<in> set experience_patterns. findall True pattern t = []"
    and "findall True date_pattern t = []"
  shows "extract_years_of_experience t = 2"
proof -
  have "concat (map (\<lambda>pattern. map (\<lambda>m. real (int_of_digits m))
                 (findall_strings True pattern t)) experience_patterns) = []"
    using assms(1) by (simp add: findall_strings_def)
  moreover have "findall_pairs True date_pattern t = []"
    using assms(2) by (simp add: findall_pairs_def)
  ultimately show ?thesis
    by (simp add: extract_years_of_experience_def Let_def)
qed

lemma extract_years_max:
  fixes t :: string
  defines "years \<equiv> concat (map (\<lambda>pattern. map (\<lambda>m. real (int_of_digits m))
                 (findall_strings True pattern t)) experience_patterns)
        @ map (\<lambda>(start, end). real_of_int
                 ((if lower end \<in> {''present'', ''current''} then 2024 else int (int_of_digits end))
                  - int (int_of_digits start)))
            (findall_pairs True date_pattern t)"
  assumes "years \<noteq> []"
  shows "extract_years_of_experience t = Max (set years)"
proof -
  have "extract_years_of_experience t = (if years \<noteq> [] then py_max years else 2)"
    unfolding years_def extract_years_of_experience_def Let_def by simp
  then show ?thesis using assms(2) by (simp add: py_max_Max)
qed

subsection \<open>Claim C3: the years of experience are not negative\<close>

text \<open>
  Claim C3 says that \<^verbatim>\<open>extract_years_of_experience\<close> returns a value that is at least
  0 for every text. A date range contributes its end year minus its start year, with 2024
  for \<^verbatim>\<open>present\<close>: a range that starts after 2024 and runs to the present, or a
  range written backwards, contributes a negative value, and it is the result when no
  other pattern matches.
\<close>

theorem extract_years_negative:
  "extract_years_of_experience ''Software Engineer, Acme Corp, 2025 - Present'' = - 1
   \<and> extract_years_of_experience ''Intern 2023-2018'' = - 5"
  by code_simp

end
